theory Spec2Isabelle
  imports Complex_Main "HOL-Library.AList"
begin

section \<open>Python values, dictionaries and exceptions\<close>

text \<open>
  The package passes its configuration around as a plain \<^verbatim>\<open>dict\<close> from strings to
  numbers, lists, strings, nested dicts or \<^verbatim>\<open>None\<close>. Python \<^verbatim>\<open>int\<close> and \<^verbatim>\<open>float\<close> values
  are both modelled as exact real numbers (\<open>PNum\<close>): the rounding of IEEE doubles is not
  part of the model. A numpy array is the nested list of its rows. A dict is an association
  list in insertion order.
\<close>

datatype pyval =
    PNum real
  | PStr string
  | PList "pyval list"
  | PDict "(string \<times> pyval) list"
  | PNone
  | PObj string

type_synonym pydict = "(string \<times> pyval) list"

datatype error =
    KeyError string
  | NameError string
  | TypeError
  | ValueError
  | IndexError
  | ZeroDivisionError
  | ImportError
  | RuntimeError
  | SolverError
  | NotANumber

text \<open>
  Exceptions are values: a computation returns \<open>Inl e\<close> when the source raises \<open>e\<close> and
  \<open>Inr x\<close> when it produces \<open>x\<close>. \<open>bind_res\<close> sequences two statements, the second of
  which is not run when the first one raises.
\<close>

definition bind_res :: "error + 'a \<Rightarrow> ('a \<Rightarrow> error + 'b) \<Rightarrow> error + 'b" where
  "bind_res m f = (case m of Inl e \<Rightarrow> Inl e | Inr x \<Rightarrow> f x)"

text \<open>\<^verbatim>\<open>d.get(k)\<close>, \<^verbatim>\<open>d.get(k, default)\<close>, \<^verbatim>\<open>d[k]\<close>, \<^verbatim>\<open>d[k] = v\<close>, \<^verbatim>\<open>d.pop(k, None)\<close>
  and \<^verbatim>\<open>d.update(e)\<close>.\<close>

definition dict_get :: "pydict \<Rightarrow> string \<Rightarrow> pyval option" where
  "dict_get d k = map_of d k"

definition dict_get_default :: "pydict \<Rightarrow> string \<Rightarrow> pyval \<Rightarrow> pyval" where
  "dict_get_default d k dflt = (case map_of d k of None \<Rightarrow> dflt | Some v \<Rightarrow> v)"

definition dict_item :: "pydict \<Rightarrow> string \<Rightarrow> error + pyval" where
  "dict_item d k = (case map_of d k of None \<Rightarrow> Inl (KeyError k) | Some v \<Rightarrow> Inr v)"

definition dict_set :: "pydict \<Rightarrow> string \<Rightarrow> pyval \<Rightarrow> pydict" where
  "dict_set d k v = AList.update k v d"

definition dict_pop :: "pydict \<Rightarrow> string \<Rightarrow> pydict" where
  "dict_pop d k = AList.delete k d"

definition dict_update :: "pydict \<Rightarrow> pydict \<Rightarrow> pydict" where
  "dict_update d e = fold (\<lambda>kv acc. AList.update (fst kv) (snd kv) acc) e d"

text \<open>
  The conversions \<^verbatim>\<open>float(v)\<close>, \<^verbatim>\<open>int(v)\<close> and \<^verbatim>\<open>list(v)\<close>. How Python reads a number out
  of a string is left to the two parsers of the record \<open>pyruntime\<close> (\<open>None\<close> is the
  \<^verbatim>\<open>ValueError\<close> of an unreadable string), and so is which nested values
  \<^verbatim>\<open>np.array(v)\<close> accepts; \<^verbatim>\<open>int\<close> of a number truncates toward zero.
\<close>

record pyruntime =
  str_to_float :: "string \<Rightarrow> real option"
  str_to_int :: "string \<Rightarrow> int option"
  np_array :: "pyval \<Rightarrow> error + pyval"

definition trunc :: "real \<Rightarrow> int" where
  "trunc r = (if 0 \<le> r then \<lfloor>r\<rfloor> else \<lceil>r\<rceil>)"

text \<open>Rounding to the nearest integer, ties to the even one (\<^verbatim>\<open>round\<close>, \<^verbatim>\<open>np.round\<close>).\<close>

definition round_half_even :: "real \<Rightarrow> int" where
  "round_half_even x =
     (if x - of_int \<lfloor>x\<rfloor> < 1 / 2 then \<lfloor>x\<rfloor>
      else if 1 / 2 < x - of_int \<lfloor>x\<rfloor> then \<lfloor>x\<rfloor> + 1
      else if even \<lfloor>x\<rfloor> then \<lfloor>x\<rfloor> else \<lfloor>x\<rfloor> + 1)"

fun py_float :: "pyruntime \<Rightarrow> pyval \<Rightarrow> error + real" where
  "py_float rt (PNum r) = Inr r"
| "py_float rt (PStr s) = (case str_to_float rt s of None \<Rightarrow> Inl ValueError | Some r \<Rightarrow> Inr r)"
| "py_float rt v = Inl TypeError"

fun py_int :: "pyruntime \<Rightarrow> pyval \<Rightarrow> error + int" where
  "py_int rt (PNum r) = Inr (trunc r)"
| "py_int rt (PStr s) = (case str_to_int rt s of None \<Rightarrow> Inl ValueError | Some i \<Rightarrow> Inr i)"
| "py_int rt v = Inl TypeError"

fun py_list :: "pyval \<Rightarrow> error + pyval list" where
  "py_list (PList xs) = Inr xs"
| "py_list (PStr s) = Inr (map (\<lambda>c. PStr [c]) s)"
| "py_list (PDict d) = Inr (map (\<lambda>kv. PStr (fst kv)) d)"
| "py_list v = Inl TypeError"

section \<open>Configuration: \<^verbatim>\<open>defaults_base.py\<close> and \<^verbatim>\<open>config.py\<close>\<close>

definition DEFAULT_BASE_PARAMS :: pydict where
  "DEFAULT_BASE_PARAMS = [
    (''Bridge_width'', PNum (125 / 10)),
    (''Bridge_skew'', PNum 36),
    (''girder_number'', PNum 6),
    (''Left_Cantilever'', PNum (105 / 100)),
    (''Right_Cantilever'', PNum (105 / 100)),
    (''girder_spacing'', PList [PNum (208 / 100)]),
    (''gravity'', PNum (981 / 100)),
    (''UF'', PNum 700),
    (''UT'', PNum 170),
    (''UFT'', PNum 200),
    (''WH'', PNum 1200),
    (''WT'', PNum 220),
    (''LFT'', PNum 200),
    (''LT'', PNum 230),
    (''LF'', PNum 680),
    (''girder_H'', PNum 2000),
    (''girder_length'', PNum 29600),
    (''number_tendon'', PNum 4),
    (''area_t'', PNum (60324 / 100)),
    (''z_coef_list'', PList [PNum 1500, PNum 1086, PNum 700, PNum 294]),
    (''z_intercept_list'', PList [PNum 200, PNum 80, PNum 80, PNum 80]),
    (''y_coef_list'', PList [PNum 0, PNum 0, PNum 0, PNum 0]),
    (''y_intercept_list'', PList [PNum 0, PNum 0, PNum (- 150), PNum 150]),
    (''tendon_horizontal_length'', PNum 14800),
    (''Ep'', PNum 200000),
    (''Ec'', PNum 28896),
    (''Ap_N'', PList [PNum (60324 / 100), PNum (60324 / 100), PNum (60324 / 100), PNum (60324 / 100)]),
    (''A_duct_N'', PList [PNum (60324 / 100), PNum (60324 / 100), PNum (60324 / 100), PNum (60324 / 100)]),
    (''y_duct_N'', PList [PNum 1850, PNum 1920, PNum 1920, PNum 1920]),
    (''b1'', PNum 700),
    (''b2'', PNum 240),
    (''b3'', PNum 220),
    (''b4'', PNum 230),
    (''b5'', PNum 680),
    (''h1'', PNum 170),
    (''h2'', PNum 200),
    (''h3'', PNum 1600),
    (''h4'', PNum 200),
    (''h5'', PNum 230),
    (''Ag1'', PNum 119000),
    (''Ag2'', PNum 48000),
    (''Ag3'', PNum 352000),
    (''Ag4'', PNum 46000),
    (''Ag5'', PNum 156400),
    (''Ag'', PNum 721400),
    (''yg1'', PNum 85),
    (''yg2'', PNum (23666666666666669 / 100000000000000)),
    (''yg3'', PNum 970),
    (''yg4'', PNum (17033333333333333 / 10000000000000)),
    (''yg5'', PNum 1885),
    (''Qg1'', PNum 10115000),
    (''Qg2'', PNum 11360000),
    (''Qg3'', PNum 341440000),
    (''Qg4'', PNum (7835333333333333 / 100000000)),
    (''Qg5'', PNum 294814000),
    (''Qg'', PNum (7360823333333333 / 10000000)),
    (''yt1'', PNum (10203525552167082 / 10000000000000)),
    (''yn_g1'', PNum (9353525552167082 / 10000000000000)),
    (''yn_g2'', PNum (7836858885500415 / 10000000000000)),
    (''yn_g3'', PNum (503525552167082 / 10000000000000)),
    (''yn_g4'', PNum (6829807781166251 / 10000000000000)),
    (''yn_g5'', PNum (8646474447832918 / 10000000000000)),
    (''Ay2g1'', PNum (1041112439035006 / 10000)),
    (''Ay2g2'', PNum (29479851451798462 / 1000000)),
    (''Ay2g3'', PNum (89245369553178 / 100000)),
    (''Ay2g4'', PNum (2145728619073237 / 100000)),
    (''Ay2g5'', PNum (11692701786967111 / 100000)),
    (''Ay2_g_n_g'', PNum (2728678531112343 / 10000)),
    (''Io_g1'', PNum (2865916666666667 / 10000000)),
    (''Io_g2'', PNum (10666666666666667 / 100000000)),
    (''Io_g3'', PNum (7509333333333333 / 100000)),
    (''Io_g4'', PNum (10222222222222222 / 100000000)),
    (''Io_g5'', PNum (6894633333333333 / 10000000)),
    (''Io_g'', PNum (7627827722222221 / 100000)),
    (''Ix_g'', PNum (34914613033345654 / 100000)),
    (''Q_duct_N'', PList [PNum 1115994, PNum (11582208 / 10), PNum (11582208 / 10), PNum (11582208 / 10)]),
    (''i'', PNum 3),
    (''Q_duct'', PNum (4590656399999999 / 1000000000)),
    (''A_duct'', PNum (241296 / 100)),
    (''y_duct'', PNum (19024999999999998 / 10000000000000)),
    (''A_net'', PNum (71898704 / 100)),
    (''Q_net'', PNum (7314916769333333 / 10000000)),
    (''yt2'', PNum (10173920199358993 / 10000000000000)),
    (''y_net_P'', PNum (29605352808089265 / 10000000000000000)),
    (''y_duct_P_N'', PList [PNum (8326079800641007 / 10000000000000), PNum (9026079800641007 / 10000000000000), PNum (9026079800641007 / 10000000000000), PNum (9026079800641007 / 10000000000000)]),
    (''Ay2_g_net_P'', PNum (632290446402684 / 100000000)),
    (''Ay2_duct_N_duct_P_N'', PList [PNum (4181877138768844 / 10000000), PNum (49146033118202597 / 100000000), PNum (49146033118202597 / 100000000), PNum (49146033118202597 / 100000000)]),
    (''Ay2_duct_duct_P'', PNum (18925687074229622 / 10000000)),
    (''Ay2_net'', PNum (1898891611886989 / 1000000)),
    (''Io_net'', PNum (34914613033345654 / 100000)),
    (''Ix_net'', PNum (3510450219453435 / 10000)),
    (''Np'', PNum (6921373200442968 / 1000000000000000)),
    (''Ap'', PNum (241296 / 100)),
    (''yp_N'', PList [PNum 1850, PNum 1920, PNum 1920, PNum 1920]),
    (''Qp_N'', PList [PNum 1115994, PNum (11582208 / 10), PNum (11582208 / 10), PNum (11582208 / 10)]),
    (''Qp'', PNum (4590656399999999 / 1000000000)),
    (''yp'', PNum (19024999999999998 / 10000000000000)),
    (''At_p'', PNum (16700996677740863 / 1000000000000)),
    (''At'', PNum (7356880366777409 / 10000000000)),
    (''Qt'', PNum (7632653231127353 / 10000000)),
    (''yt3'', PNum (1037485027702135 / 1000000000000)),
    (''yt_P_N'', PList [PNum (8125149722978649 / 10000000000000), PNum (8825149722978649 / 10000000000000), PNum (8825149722978649 / 10000000000000), PNum (8825149722978649 / 10000000000000)]),
    (''Ay2_t_t_P_N'', PList [PNum (27564184191915464 / 10000000), PNum (32518204849754267 / 10000000), PNum (32518204849754267 / 10000000), PNum (32518204849754267 / 10000000)]),
    (''y_net_PP'', PNum (20093007766235814 / 1000000000000000)),
    (''Io_t'', PNum (3510450219453435 / 10000)),
    (''Ix_t'', PNum (3638471777101606 / 10000)),
    (''A_t'', PNum (7356880366777409 / 10000000000)),
    (''B_t'', PNum (7632653231127353 / 10000000)),
    (''I_n'', PNum (3638471777101606 / 10000))]"

definition get_default_base_params :: pydict where
  "get_default_base_params = DEFAULT_BASE_PARAMS"

text \<open>\<^verbatim>\<open>s.strip()\<close> and \<^verbatim>\<open>s.lower()\<close> on ASCII strings.\<close>

definition is_space :: "char \<Rightarrow> bool" where
  "is_space c = (c \<in> set [CHR 0x09, CHR 0x0A, CHR 0x0B, CHR 0x0C, CHR 0x0D,
                            CHR 0x1C, CHR 0x1D, CHR 0x1E, CHR 0x1F, CHR 0x20])"

definition py_strip :: "string \<Rightarrow> string" where
  "py_strip s = rev (dropWhile is_space (rev (dropWhile is_space s)))"

definition lower_char :: "char \<Rightarrow> char" where
  "lower_char c =
     (case map_of (zip ''ABCDEFGHIJKLMNOPQRSTUVWXYZ'' ''abcdefghijklmnopqrstuvwxyz'') c of
        None \<Rightarrow> c
      | Some l \<Rightarrow> l)"

definition py_lower :: "string \<Rightarrow> string" where
  "py_lower s = map lower_char s"

text \<open>\<^verbatim>\<open>xs * n\<close> on a list: \<open>n\<close> copies of \<open>xs\<close>, none when \<open>n \<le> 0\<close>.\<close>

definition list_mul :: "'a list \<Rightarrow> int \<Rightarrow> 'a list" where
  "list_mul xs n = concat (replicate (nat n) xs)"

text \<open>A numeric table (\<^verbatim>\<open>np.vstack\<close> of rows) as a value, and \<^verbatim>\<open>table * factor\<close>.\<close>

definition table_val :: "real list list \<Rightarrow> pyval" where
  "table_val rows = PList (map (\<lambda>row. PList (map PNum row)) rows)"

definition table_scale :: "real list list \<Rightarrow> real \<Rightarrow> real list list" where
  "table_scale rows factor = map (map (\<lambda>x. x * factor)) rows"

text \<open>
  The twelve bearing rows, six per abutment, as both \<^verbatim>\<open>_default_params\<close> and
  \<^verbatim>\<open>make_params\<close> write them out: \<^verbatim>\<open>[free, consts1, consts, 0, 0, 0]\<close> and so on.
\<close>

definition rows_A1 :: "real \<Rightarrow> real \<Rightarrow> real \<Rightarrow> real \<Rightarrow> real list list" where
  "rows_A1 free consts consts1 consts_crack =
     [[free, consts1, consts, 0, 0, 0],
      [free, consts1, consts, 0, 0, 0],
      [free, consts1, consts_crack, 0, 0, 0],
      [free, consts1, consts_crack, 0, 0, 0],
      [free, consts1, consts_crack, 0, 0, 0],
      [free, consts1, consts, 0, 0, 0]]"

definition rows_A2 :: "real \<Rightarrow> real \<Rightarrow> real \<Rightarrow> real \<Rightarrow> real list list" where
  "rows_A2 free consts consts1 consts_crack =
     [[consts1, free, consts_crack, 0, 0, 0],
      [consts1, free, consts, 0, 0, 0],
      [consts1, free, consts_crack, 0, 0, 0],
      [consts1, free, consts_crack, 0, 0, 0],
      [consts1, free, consts_crack, 0, 0, 0],
      [consts1, consts1, consts, 0, 0, 0]]"

text \<open>
  \<^verbatim>\<open>Bearing_Stiffness_A1 = np.vstack((A1_B1, ..., A1_B6)) * bearing_multiplier\<close>,
  \<^verbatim>\<open>Bearing_Stiffness_A2 = np.vstack((A2_B1, ..., A2_B6))\<close> and
  \<^verbatim>\<open>Bearing_Stiffness = np.vstack((Bearing_Stiffness_A1, Bearing_Stiffness_A2))\<close>.
\<close>

definition Bearing_Stiffness_table :: "real \<Rightarrow> real \<Rightarrow> real \<Rightarrow> real \<Rightarrow> real \<Rightarrow> real list list" where
  "Bearing_Stiffness_table free consts consts1 consts_crack bearing_multiplier =
     table_scale (rows_A1 free consts consts1 consts_crack) bearing_multiplier
       @ rows_A2 free consts consts1 consts_crack"

definition default_params :: "pyruntime \<Rightarrow> error + pydict" where
  "default_params rt =
     (let base = get_default_base_params in
      bind_res (py_int rt (dict_get_default base ''girder_number'' (PNum 6))) (\<lambda>girder_number.
      let free = 0;
          consts = 10 ^ 9 / 10 ^ 3;
          consts1 = 80000;
          consts_crack = 10 ^ 9 / 10 ^ 4;
          bearing_multiplier = 3 / 10;
          Bearing_Stiffness = Bearing_Stiffness_table free consts consts1 consts_crack bearing_multiplier;
          params = get_default_base_params
      in Inr (dict_update params
        [(''E_girder1'', PList (list_mul (list_mul [PNum 28000] girder_number) 2)),
         (''E_girder2'', PList (list_mul (list_mul [PNum 28000] girder_number) 2)),
         (''E_deck1'', PList (list_mul [PNum 25000] (girder_number + 1))),
         (''E_deck2'', PList (list_mul [PNum 25000] (girder_number + 1))),
         (''thickness1'', PList (list_mul [PNum 250] (girder_number + 2))),
         (''thickness2'', PList (list_mul [PNum 250] (girder_number + 2))),
         (''Bearing_Stiffness'', table_val Bearing_Stiffness),
         (''bearing_multiplier'', PNum bearing_multiplier),
         (''consts1'', PNum consts1),
         (''consts_crack'', PNum consts_crack),
         (''load'', PNum (- 290 * 1000 / 2)),
         (''PE'', PNum 600),
         (''diaphragm1_Ec'', PList (list_mul [PNum 24000] 5)),
         (''diaphragm2_Ec'', PList (list_mul [PNum 24000] 5)),
         (''pave_thick'', PList [PNum 80]),
         (''numEigen'', PNum 3),
         (''zeta'', PNum (15 / 1000)),
         (''dt'', PNum (1 / 10)),
         (''velocity_kmh'', PNum 10),
         (''girder3_start_tag'', PNum 3001),
         (''girder4_start_tag'', PNum 4001),
         (''girder_n_nodes'', PNum 149)])))"

definition CASE_OVERRIDES :: "(string \<times> pydict) list" where
  "CASE_OVERRIDES =
     [(''baseline'', []),
      (''case1'', []),
      (''case2'', [(''bearing_multiplier'', PNum (5 / 10))]),
      (''case5'', [(''E_girder1'', PList [PNum (28000 * (7 / 10)), PNum 28000, PNum 28000,
                                          PNum 28000, PNum 28000, PNum 28000])]),
      (''case6'', [(''E_girder1'', PList [PNum (28000 * (5 / 10)), PNum 28000, PNum 28000,
                                          PNum 28000, PNum 28000, PNum 28000])]),
      (''case9'', [(''E_deck1'', PStr ''deck_0.7'')])]"

text \<open>
  \<^verbatim>\<open>make_params(case)\<close>: the defaults, then the case's overrides. An override of
  \<^verbatim>\<open>bearing_multiplier\<close> rebuilds the bearing table from \<^verbatim>\<open>params["consts1"]\<close> and
  \<^verbatim>\<open>params["consts_crack"]\<close> with the new multiplier on the A1 rows.
\<close>

definition rebuild_bearing :: "pyruntime \<Rightarrow> pydict \<Rightarrow> pydict \<Rightarrow> error + (pydict \<times> pydict)" where
  "rebuild_bearing rt params overrides =
     (case dict_get overrides ''bearing_multiplier'' of
        None \<Rightarrow> Inr (params, overrides)
      | Some b \<Rightarrow>
          bind_res (py_float rt b) (\<lambda>bm.
          let overrides = dict_pop overrides ''bearing_multiplier'';
              free = 0;
              consts = 10 ^ 9 / 10 ^ 3
          in bind_res (dict_item params ''consts1'') (\<lambda>c1.
             bind_res (dict_item params ''consts_crack'') (\<lambda>cc.
             case (c1, cc) of
               (PNum consts1, PNum consts_crack) \<Rightarrow>
                 (let params = dict_set params ''Bearing_Stiffness''
                        (table_val (Bearing_Stiffness_table free consts consts1 consts_crack bm));
                      params = dict_set params ''bearing_multiplier'' (PNum bm)
                  in Inr (params, overrides))
             | _ \<Rightarrow> Inl TypeError))))"

definition make_params :: "pyruntime \<Rightarrow> string \<Rightarrow> error + pydict" where
  "make_params rt case_label =
     (let case_label = py_lower (py_strip case_label) in
      bind_res (default_params rt) (\<lambda>params.
      bind_res (py_int rt (dict_get_default params ''girder_number'' (PNum 6))) (\<lambda>girder_number.
      case map_of CASE_OVERRIDES case_label of
        None \<Rightarrow> Inl ValueError
      | Some ov \<Rightarrow>
          (let overrides = ov;
               overrides = (if dict_get overrides ''E_deck1'' = Some (PStr ''deck_0.7'')
                            then dict_set overrides ''E_deck1''
                                   (PList (list_mul [PNum (25000 * (7 / 10))] (girder_number + 1)))
                            else overrides)
           in bind_res (rebuild_bearing rt params overrides) (\<lambda>po.
              Inr (dict_update (fst po) (snd po)))))))"

text \<open>The bearing table of a parameter dict as a matrix, and one entry of it.\<close>

fun num_of :: "pyval \<Rightarrow> real" where
  "num_of (PNum r) = r"
| "num_of v = 0"

fun row_of :: "pyval \<Rightarrow> real list" where
  "row_of (PList xs) = map num_of xs"
| "row_of v = []"

fun table_of :: "pyval option \<Rightarrow> real list list" where
  "table_of (Some (PList rs)) = map row_of rs"
| "table_of v = []"

definition bearing_table :: "error + pydict \<Rightarrow> real list list" where
  "bearing_table r = (case r of Inl e \<Rightarrow> [] | Inr params \<Rightarrow> table_of (dict_get params ''Bearing_Stiffness''))"

text \<open>
  A runtime in which no string reads as a number and \<^verbatim>\<open>np.array\<close> accepts everything, for
  closed statements.
\<close>

definition plain_runtime :: pyruntime where
  "plain_runtime = \<lparr>str_to_float = (\<lambda>s. None), str_to_int = (\<lambda>s. None), np_array = Inr\<rparr>"

section \<open>Moving load: \<^verbatim>\<open>analysis/moving_load.py\<close>\<close>

text \<open>
  Indexing \<^verbatim>\<open>xs[i]\<close> of a list or array: a negative index counts from the end, an index
  out of range raises \<^verbatim>\<open>IndexError\<close>.
\<close>

definition py_nth :: "'a list \<Rightarrow> int \<Rightarrow> error + 'a" where
  "py_nth xs i =
     (if 0 \<le> i \<and> i < int (length xs) then Inr (xs ! nat i)
      else if i < 0 \<and> - int (length xs) \<le> i then Inr (xs ! nat (int (length xs) + i))
      else Inl IndexError)"

text \<open>
  \<^verbatim>\<open>np.searchsorted(a, v)\<close> (left side) on an ascending array is the number of elements
  strictly below \<open>v\<close>; \<^verbatim>\<open>np.clip(a, lo, hi)\<close> is \<^verbatim>\<open>minimum(maximum(a, lo), hi)\<close>.
\<close>

definition searchsorted :: "real list \<Rightarrow> real \<Rightarrow> nat" where
  "searchsorted a v = length (takeWhile (\<lambda>x. x < v) a)"

definition clip :: "int \<Rightarrow> int \<Rightarrow> int \<Rightarrow> int" where
  "clip a lo hi = min (max a lo) hi"

text \<open>
  A load history is the dict \<^verbatim>\<open>{int(nd): np.zeros(len(time_steps)) for nd in girder}\<close>:
  node tag to one force sample per time step, in insertion order.
\<close>

type_synonym history = "(int \<times> real list) list"

definition history_init :: "int list \<Rightarrow> nat \<Rightarrow> history" where
  "history_init girder n = fold (\<lambda>nd acc. AList.update nd (replicate n 0) acc) girder []"

text \<open>\<^verbatim>\<open>node_hist[nd][it] += v\<close>.\<close>

definition history_add :: "history \<Rightarrow> int \<Rightarrow> nat \<Rightarrow> real \<Rightarrow> error + history" where
  "history_add node_hist nd it v =
     (case map_of node_hist nd of
        None \<Rightarrow> Inl (KeyError ''node'')
      | Some vals \<Rightarrow>
          if it < length vals
          then Inr (AList.update nd (vals[it := vals ! it + v]) node_hist)
          else Inl IndexError)"

definition history_at :: "history \<Rightarrow> int \<Rightarrow> nat \<Rightarrow> real" where
  "history_at node_hist nd it = (case map_of node_hist nd of None \<Rightarrow> 0 | Some vals \<Rightarrow> vals ! it)"

text \<open>Every tag of a line has a history of \<open>n\<close> samples.\<close>

definition history_covers :: "history \<Rightarrow> int list \<Rightarrow> nat \<Rightarrow> bool" where
  "history_covers node_hist girder n =
     list_all (\<lambda>nd. case map_of node_hist nd of None \<Rightarrow> False | Some vals \<Rightarrow> length vals = n) girder"

text \<open>
  The body of the axle loop once the line is chosen (lines 122 to 130): when the axle
  lies on the span, find the bracketing pair of nodes, split the load linearly between
  them and add the two parts to the histories at step \<open>it\<close>. The division
  \<^verbatim>\<open>(x_axle - xi) / (xj - xi)\<close> is one of numpy floats: on a zero width it does not raise
  but yields \<^verbatim>\<open>inf\<close> or \<^verbatim>\<open>nan\<close>, which no real number stands for; the model stops there
  with \<open>NotANumber\<close>.
\<close>

definition interpolation_fraction :: "real \<Rightarrow> real \<Rightarrow> real \<Rightarrow> real" where
  "interpolation_fraction x_axle xi xj = (x_axle - xi) / (xj - xi)"

definition bracket_index :: "real list \<Rightarrow> int list \<Rightarrow> real \<Rightarrow> int" where
  "bracket_index x_g girder x_axle =
     (let idx = int (searchsorted x_g x_axle) - 1
      in clip idx 0 (int (length girder) - 2))"

definition add_axle ::
  "real list \<Rightarrow> int list \<Rightarrow> history \<Rightarrow> nat \<Rightarrow> real \<Rightarrow> real \<Rightarrow> error + history" where
  "add_axle x_g girder node_hist it x_axle load_val =
     bind_res (py_nth x_g 0) (\<lambda>x_first.
     bind_res (py_nth x_g (- 1)) (\<lambda>x_last.
     if x_first \<le> x_axle \<and> x_axle \<le> x_last then
       (let idx = bracket_index x_g girder x_axle
        in bind_res (py_nth x_g idx) (\<lambda>xi.
           bind_res (py_nth x_g (idx + 1)) (\<lambda>xj.
           bind_res (py_nth girder idx) (\<lambda>nd_i.
           bind_res (py_nth girder (idx + 1)) (\<lambda>nd_j.
           if xj - xi = 0 then Inl NotANumber
           else
             (let r = interpolation_fraction x_axle xi xj
              in bind_res (history_add node_hist nd_i it (load_val * (1 - r))) (\<lambda>node_hist.
                 history_add node_hist nd_j it (load_val * r))))))))
     else Inr node_hist))"

text \<open>Sequencing a loop body over a list, stopping at the first exception.\<close>

fun fold_res :: "('a \<Rightarrow> 's \<Rightarrow> error + 's) \<Rightarrow> 'a list \<Rightarrow> 's \<Rightarrow> error + 's" where
  "fold_res f [] s = Inr s"
| "fold_res f (x # xs) s = bind_res (f x s) (fold_res f xs)"

text \<open>
  One girder line as the load engine sees it: the node tags and their longitudinal
  coordinates \<^verbatim>\<open>x_g = coords[:, 0]\<close>, one per tag.
\<close>

record girder_line =
  line_tags :: "int list"
  line_x :: "real list"

text \<open>
  One axle at one time step (lines 114 to 130): axles 0 to 2 run on girder 3, the others
  on girder 4; the axle is at \<^verbatim>\<open>x_start - progress + dist\<close>, where \<^verbatim>\<open>x_start\<close> is the last
  coordinate of its line.
\<close>

definition axle_step ::
  "girder_line \<Rightarrow> girder_line \<Rightarrow> real \<Rightarrow> real \<Rightarrow> nat \<Rightarrow> real \<Rightarrow> nat \<times> real \<times> real
     \<Rightarrow> history \<times> history \<Rightarrow> error + (history \<times> history)" where
  "axle_step g3 g4 x_start_g3 x_start_g4 it progress ax hs =
     (case ax of (i_ax, dist_ax, load_val) \<Rightarrow>
        if i_ax < 3 then
          bind_res (add_axle (line_x g3) (line_tags g3) (fst hs) it
                      (x_start_g3 - progress + dist_ax) load_val)
            (\<lambda>h. Inr (h, snd hs))
        else
          bind_res (add_axle (line_x g4) (line_tags g4) (snd hs) it
                      (x_start_g4 - progress + dist_ax) load_val)
            (\<lambda>h. Inr (fst hs, h)))"

definition time_step ::
  "girder_line \<Rightarrow> girder_line \<Rightarrow> real \<Rightarrow> real \<Rightarrow> real \<Rightarrow> real list \<Rightarrow> real list
     \<Rightarrow> nat \<times> real \<Rightarrow> history \<times> history \<Rightarrow> error + (history \<times> history)" where
  "time_step g3 g4 x_start_g3 x_start_g4 speed distances loads itt hs =
     (case itt of (it, t) \<Rightarrow>
        (let progress = speed * t;
             axles = zip [0 ..< length distances] (zip distances loads)
         in fold_res (axle_step g3 g4 x_start_g3 x_start_g4 it progress) axles hs))"

text \<open>
  \<^verbatim>\<open>np.arange(0, stop, step)\<close>: the samples \<open>0, step, 2 step, \<dots>\<close> below \<open>stop\<close>, none for a
  negative step; a zero step raises (as \<open>ValueError\<close> here; the class depends on the
  version of numpy).
\<close>

definition arange :: "real \<Rightarrow> real \<Rightarrow> error + real list" where
  "arange stop step =
     (if step = 0 then Inl ValueError
      else Inr (map (\<lambda>i. real i * step) [0 ..< nat \<lceil>stop / step\<rceil>]))"

text \<open>
  Sections 0 to 3 of \<^verbatim>\<open>run_moving_load\<close> from the two lines on: the bridge length, the
  speed in mm/s, the start positions, the time axis, the zero histories and the double
  loop over time steps and axles. \<^verbatim>\<open>max\<close> of no distances and the division by a zero
  speed raise.
\<close>

definition load_history ::
  "girder_line \<Rightarrow> girder_line \<Rightarrow> real \<Rightarrow> real \<Rightarrow> real list \<Rightarrow> real list
     \<Rightarrow> error + (real list \<times> history \<times> history)" where
  "load_history g3 g4 velocity_kmh dt loads distances =
     bind_res (py_nth (line_x g3) (- 1)) (\<lambda>x_last.
     bind_res (py_nth (line_x g3) 0) (\<lambda>x_first.
     let bridge_length = \<bar>x_last - x_first\<bar>;
         speed = velocity_kmh * 1000 * 1000 / 3600
     in bind_res (py_nth (line_x g3) (- 1)) (\<lambda>x_start_g3.
        bind_res (py_nth (line_x g4) (- 1)) (\<lambda>x_start_g4.
        if distances = [] then Inl ValueError
        else
          (let truck_length = \<bar>Max (set distances)\<bar>
           in if speed = 0 then Inl ZeroDivisionError
              else
                (let t_total = (bridge_length + truck_length) / speed
                 in bind_res (arange (t_total + 5) dt) (\<lambda>time_steps.
                    let h3 = history_init (line_tags g3) (length time_steps);
                        h4 = history_init (line_tags g4) (length time_steps)
                    in bind_res
                         (fold_res (time_step g3 g4 x_start_g3 x_start_g4 speed distances loads)
                            (zip [0 ..< length time_steps] time_steps) (h3, h4))
                         (\<lambda>hs. Inr (time_steps, fst hs, snd hs)))))))))"

text \<open>
  A numpy float where \<^verbatim>\<open>nan\<close> and \<^verbatim>\<open>inf\<close> can arise: numpy raises nothing on the square
  root of a negative number or on a division by zero, it yields \<^verbatim>\<open>nan\<close> or \<^verbatim>\<open>inf\<close> and
  goes on. The finite values are computed exactly; the sign of a zero is not kept (a
  zero divisor counts as \<open>+0\<close>).
\<close>

datatype npfloat = Finite real | PosInf | NegInf | NaN

fun np_add :: "npfloat \<Rightarrow> npfloat \<Rightarrow> npfloat" where
  "np_add (Finite a) (Finite b) = Finite (a + b)"
| "np_add NaN y = NaN"
| "np_add x NaN = NaN"
| "np_add PosInf NegInf = NaN"
| "np_add NegInf PosInf = NaN"
| "np_add PosInf y = PosInf"
| "np_add NegInf y = NegInf"
| "np_add (Finite a) y = y"

fun np_neg :: "npfloat \<Rightarrow> npfloat" where
  "np_neg (Finite a) = Finite (- a)"
| "np_neg PosInf = NegInf"
| "np_neg NegInf = PosInf"
| "np_neg NaN = NaN"

fun np_mul :: "npfloat \<Rightarrow> npfloat \<Rightarrow> npfloat" where
  "np_mul (Finite a) (Finite b) = Finite (a * b)"
| "np_mul NaN y = NaN"
| "np_mul x NaN = NaN"
| "np_mul (Finite a) y = (if a = 0 then NaN else if 0 < a then y else np_neg y)"
| "np_mul x (Finite b) = (if b = 0 then NaN else if 0 < b then x else np_neg x)"
| "np_mul PosInf y = y"
| "np_mul NegInf y = np_neg y"

fun np_div :: "npfloat \<Rightarrow> npfloat \<Rightarrow> npfloat" where
  "np_div (Finite a) (Finite b) =
     (if b \<noteq> 0 then Finite (a / b)
      else if a = 0 then NaN else if 0 < a then PosInf else NegInf)"
| "np_div NaN y = NaN"
| "np_div x NaN = NaN"
| "np_div (Finite a) y = Finite 0"
| "np_div x (Finite b) = (if 0 \<le> b then x else np_neg x)"
| "np_div x y = NaN"

text \<open>The commands sent to the solver that the model keeps track of.\<close>

datatype solver_command =
    TimeSeriesPath int real "real list" real
  | PatternPlain int int
  | Load int "real list"
  | Rayleigh npfloat real real npfloat

text \<open>
  Section 4, the damping (lines 137 to 142): \<^verbatim>\<open>np.sqrt\<close> of a negative eigenvalue is
  \<^verbatim>\<open>nan\<close> (\<open>None\<close> in \<open>np_sqrt\<close>); \<^verbatim>\<open>omega_list[0]\<close> raises on an empty array; the two
  coefficients are computed in numpy floats and handed to \<^verbatim>\<open>ops.rayleigh\<close> whatever
  they are.
\<close>

definition np_sqrt :: "real \<Rightarrow> real option" where
  "np_sqrt x = (if x < 0 then None else Some (sqrt x))"

definition as_npfloat :: "real option \<Rightarrow> npfloat" where
  "as_npfloat x = (case x of None \<Rightarrow> NaN | Some v \<Rightarrow> Finite v)"

definition rayleigh_coefficients :: "real list \<Rightarrow> real \<Rightarrow> error + (npfloat \<times> npfloat)" where
  "rayleigh_coefficients eigen_value zeta =
     (let omega_list = map (\<lambda>e. as_npfloat (np_sqrt e)) eigen_value
      in bind_res (py_nth omega_list 0) (\<lambda>omega1.
         bind_res (py_nth omega_list (min 2 (int (length omega_list) - 1))) (\<lambda>omega2.
         let alphaM = np_div (np_mul (Finite zeta) (np_mul (np_mul (Finite 2) omega1) omega2))
                        (np_add omega1 omega2);
             betaK = np_div (Finite (2 * zeta)) (np_add omega1 omega2)
         in Inr (alphaM, betaK))))"

text \<open>\<^verbatim>\<open>ops.rayleigh(alphaM, 0.0, 0.0, betaK)\<close>.\<close>

definition rayleigh_command :: "real list \<Rightarrow> real \<Rightarrow> error + solver_command" where
  "rayleigh_command eigen_value zeta =
     bind_res (rayleigh_coefficients eigen_value zeta) (\<lambda>ab. Inr (Rayleigh (fst ab) 0 0 (snd ab)))"

text \<open>
  Section 6: the commands \<^verbatim>\<open>create_pathseries_from_history\<close> sends to the solver, in
  order. \<^verbatim>\<open>np.allclose(values, 0.0)\<close> holds when every sample \<open>v\<close> has
  \<open>\<bar>v - 0\<bar> \<le> atol + rtol * \<bar>0\<bar>\<close> with numpy's defaults \<open>atol = 1e-8\<close> and
  \<open>rtol = 1e-5\<close>.
\<close>

definition allclose :: "real list \<Rightarrow> real \<Rightarrow> bool" where
  "allclose vals b = list_all (\<lambda>a. \<bar>a - b\<bar> \<le> 1 / 10 ^ 8 + 1 / 10 ^ 5 * \<bar>b\<bar>) vals"

fun create_pathseries_from_history :: "real \<Rightarrow> history \<Rightarrow> int \<Rightarrow> solver_command list" where
  "create_pathseries_from_history dt [] girder_id = []"
| "create_pathseries_from_history dt ((nd, vals) # history_dict) girder_id =
     (if allclose vals 0 then create_pathseries_from_history dt history_dict girder_id
      else
        (let ts_tag = 1000 * girder_id + nd;
             pat_tag = 2000 * girder_id + nd
         in [TimeSeriesPath ts_tag dt vals 1,
             PatternPlain pat_tag ts_tag,
             Load nd [0, 0, - 1, 0, 0, 0]]
            @ create_pathseries_from_history dt history_dict girder_id))"

text \<open>
  The commands of a list that concern one girder node: a load names its node, and the
  tags of a time series and of a pattern are \<^verbatim>\<open>1000 * girder_id + nd\<close> and
  \<^verbatim>\<open>2000 * girder_id + nd\<close>.
\<close>

definition command_node :: "int \<Rightarrow> solver_command \<Rightarrow> int option" where
  "command_node girder_id c =
     (case c of
        TimeSeriesPath ts_tag dt vals factor \<Rightarrow> Some (ts_tag - 1000 * girder_id)
      | PatternPlain pat_tag ts_tag \<Rightarrow> Some (pat_tag - 2000 * girder_id)
      | Load nd vec \<Rightarrow> Some nd
      | Rayleigh alphaM betaK0 betaKinit betaKcomm \<Rightarrow> None)"

definition commands_of_node :: "int \<Rightarrow> int \<Rightarrow> solver_command list \<Rightarrow> solver_command list" where
  "commands_of_node girder_id nd cmds = filter (\<lambda>c. command_node girder_id c = Some nd) cmds"

text \<open>A line of three nodes, 200 mm apart, for the closed statements.\<close>

definition demo_x :: "real list" where
  "demo_x = [0, 200, 400]"

definition demo_tags :: "int list" where
  "demo_tags = [3001, 3002, 3003]"

subsection \<open>The load loop in binary64 arithmetic\<close>

text \<open>
  The definitions above compute with real numbers. The coordinates, loads and histories
  of the source are numpy floats (binary64), and the properties that depend on exact
  sums are stated on the rendering of lines 112 to 130 given here. An operation on
  them yields the exact result rounded to the nearest number that has a significand of
  53 bits, or that is a multiple of \<open>2^-1074\<close> below \<open>2^-1022\<close>; a tie goes to the even
  significand. \<open>quantum_exponent z\<close> is the exponent \<open>e\<close> of the spacing \<open>2^e\<close> of
  these numbers around \<open>z\<close>: \<open>\<lfloor>log2 \<bar>z\<bar>\<rfloor> - 52\<close>, and no less than \<open>-1074\<close> nor more
  than 971.
\<close>

definition pow2 :: "int \<Rightarrow> real" where
  "pow2 e = (if 0 \<le> e then 2 ^ nat e else 1 / 2 ^ nat (- e))"

function exponent_down :: "int \<Rightarrow> real \<Rightarrow> int" where
  "exponent_down e z =
     (if e \<le> - 1074 \<or> pow2 (e + 52) \<le> z then e else exponent_down (e - 1) z)"
  by pat_completeness auto
termination
  by (relation "measure (\<lambda>(e, z). nat (e + 1074))") auto

function exponent_up :: "int \<Rightarrow> real \<Rightarrow> int" where
  "exponent_up e z =
     (if 971 \<le> e \<or> z < pow2 (e + 53) then e else exponent_up (e + 1) z)"
  by pat_completeness auto
termination
  by (relation "measure (\<lambda>(e, z). nat (971 - e))") auto

declare exponent_down.simps [simp del] exponent_up.simps [simp del]

definition quantum_exponent :: "real \<Rightarrow> int" where
  "quantum_exponent z =
     (if \<bar>z\<bar> < pow2 53 then exponent_down 0 \<bar>z\<bar> else exponent_up 0 \<bar>z\<bar>)"

definition f64_round :: "real \<Rightarrow> real" where
  "f64_round z =
     (let q = pow2 (quantum_exponent z)
      in q * of_int (round_half_even (z / q)))"












section \<open>Model builder: \<^verbatim>\<open>model/builder.py\<close>\<close>

subsection \<open>Names and the solver\<close>

text \<open>
  The names bound at module level once \<^verbatim>\<open>builder.py\<close> is imported: its imports, the two
  names of each \<^verbatim>\<open>try\<close> block, the two classes and the function. A name that a function
  body reads and never assigns is looked up here (and then among Python's builtins,
  which hold none of the names below); a miss raises \<^verbatim>\<open>NameError\<close>. The module
  \<^verbatim>\<open>legacy_globals\<close> is not among the imports.
\<close>

definition builder_globals :: "string list" where
  "builder_globals =
     [''annotations'', ''dataclass'', ''Any'', ''Dict'', ''Optional'', ''math'', ''np'', ''pd'',
      ''plt'', ''Polygon'', ''ops'', ''_OPENSEESPY_IMPORT_ERROR'', ''vfo'',
      ''BuiltModel'', ''Analysis'', ''build_bridge_model'']"

definition load_global :: "string \<Rightarrow> error + pyval" where
  "load_global nm = (if nm \<in> set builder_globals then Inr (PObj nm) else Inl (NameError nm))"

text \<open>A value used as a number in arithmetic: anything else raises \<^verbatim>\<open>TypeError\<close>.\<close>

fun as_number :: "pyval \<Rightarrow> error + real" where
  "as_number (PNum r) = Inr r"
| "as_number v = Inl TypeError"

text \<open>Running a statement for every element of a list and collecting the results.\<close>

fun map_res :: "('a \<Rightarrow> error + 'b) \<Rightarrow> 'a list \<Rightarrow> error + 'b list" where
  "map_res f [] = Inr []"
| "map_res f (x # xs) = bind_res (f x) (\<lambda>y. bind_res (map_res f xs) (\<lambda>ys. Inr (y # ys)))"

text \<open>\<^verbatim>\<open>range(a, b)\<close> as a list of integers.\<close>

definition py_range :: "int \<Rightarrow> int \<Rightarrow> int list" where
  "py_range a b = map (\<lambda>k. a + int k) [0 ..< nat (b - a)]"

text \<open>
  The node, mass and element commands that the builder sends to the solver are kept as
  a log; materials, sections, transformations and constraints are not tracked.
\<close>

datatype build_command =
    Node int real real real
  | Mass int real real real
  | Element int int int
  | ShellElement int "int list"

text \<open>
  \<^verbatim>\<open>class Analysis\<close>: the fields set by \<^verbatim>\<open>__init__\<close> that the methods read, with
  \<^verbatim>\<open>self.m = 1000\<close>, \<^verbatim>\<open>self.mm2 = 1\<close> and \<^verbatim>\<open>self.MPa = 1\<close> written out.
\<close>

record analysis =
  an_params :: pydict
  an_nums_girder :: int
  an_width :: real
  an_skew :: real
  an_L :: real

definition Analysis_init :: "real \<Rightarrow> real \<Rightarrow> int \<Rightarrow> real \<Rightarrow> pydict \<Rightarrow> analysis" where
  "Analysis_init length_m width nums_girder skew params =
     \<lparr>an_params = params, an_nums_girder = nums_girder, an_width = width * 1000,
      an_skew = skew, an_L = length_m * 1000\<rparr>"

subsection \<open>Mesh division\<close>

text \<open>
  \<^verbatim>\<open>division = int(L / self.m * 5)\<close>, the same line in \<^verbatim>\<open>girder\<close>, \<^verbatim>\<open>deck\<close>, \<^verbatim>\<open>pavement\<close>
  and \<^verbatim>\<open>barrier\<close>; \<^verbatim>\<open>imax = division + 1\<close>.
\<close>

definition division_of :: "real \<Rightarrow> int" where
  "division_of L = trunc (L / 1000 * 5)"

text \<open>
  Modelled from the spec: the rounding of \<^verbatim>\<open>round(length_in_meters * 5)\<close>, Python's
  \<^verbatim>\<open>round\<close> to the nearest integer with ties to the even one; the code has no such
  function.
\<close>

definition spec_round :: "real \<Rightarrow> int" where
  "spec_round x = round_half_even x"

subsection \<open>Node tags\<close>

text \<open>
  The tag arithmetic, as written inline at each \<^verbatim>\<open>ops.node\<close> call:
  girder \<^verbatim>\<open>1000 * girder_number + j + 1\<close>, deck and pavement
  \<^verbatim>\<open>deck_number * 100000 + 1000 * slicing_list[i] + j + 1\<close>, barrier
  \<^verbatim>\<open>1000000 + 10000 * number + j + 1\<close>, diaphragm \<^verbatim>\<open>bridge_number * 100 + 10 * number + i\<close>,
  bearing \<^verbatim>\<open>10000000 + spring_number\<close> and \<^verbatim>\<open>100000000 + spring_number\<close>.
\<close>

definition girder_node_tag :: "int \<Rightarrow> int \<Rightarrow> int" where
  "girder_node_tag girder_number j = 1000 * girder_number + j + 1"

definition deck_node_tag :: "int \<Rightarrow> int \<Rightarrow> int \<Rightarrow> int" where
  "deck_node_tag deck_number s j = deck_number * 100000 + 1000 * s + j + 1"


definition diaphragm_node_tag :: "int \<Rightarrow> int \<Rightarrow> int \<Rightarrow> int" where
  "diaphragm_node_tag bridge_number number i = bridge_number * 100 + 10 * number + i"

definition support_node_tag :: "int \<Rightarrow> int" where
  "support_node_tag spring_number = 10000000 + spring_number"

definition spring_node_tag :: "int \<Rightarrow> int" where
  "spring_node_tag spring_number = 100000000 + spring_number"

text \<open>The tags of one line or group, in the order of the loops that create them.\<close>

definition girder_node_tags :: "int \<Rightarrow> int \<Rightarrow> int list" where
  "girder_node_tags girder_number division =
     map (girder_node_tag girder_number) (py_range 0 (division + 1))"

definition deck_line_tags :: "int \<Rightarrow> int \<Rightarrow> int \<Rightarrow> int list" where
  "deck_line_tags deck_number division s =
     map (deck_node_tag deck_number s) (py_range 0 (division + 1))"



definition diaphragm_node_tags :: "int \<Rightarrow> int \<Rightarrow> int \<Rightarrow> int list" where
  "diaphragm_node_tags bridge_number number nums_girder =
     map (diaphragm_node_tag bridge_number number) (py_range 1 (1 + nums_girder))"





subsection \<open>Girder line: nodes, lumped masses, elements\<close>

text \<open>
  Lines 129 to 140 of \<^verbatim>\<open>Analysis.girder\<close>. The loop creates the \<^verbatim>\<open>imax\<close> nodes and fills
  \<^verbatim>\<open>mass_before\<close> and \<^verbatim>\<open>mass_after\<close> with \<^verbatim>\<open>rho * Acol * L/division / 2\<close>; then
  \<^verbatim>\<open>mass_before[-1] = 0\<close>, \<^verbatim>\<open>mass_after[0] = 0\<close>, \<^verbatim>\<open>mass_all\<close> is their sum and every node
  is given its entry as vertical mass. \<^verbatim>\<open>L/division\<close> raises on \<^verbatim>\<open>division = 0\<close>, the
  assignment to \<^verbatim>\<open>mass_before[-1]\<close> on an empty list.
\<close>

definition girder_node_loop ::
  "int \<Rightarrow> real \<Rightarrow> int \<Rightarrow> real \<Rightarrow> real \<Rightarrow> real \<Rightarrow> real \<Rightarrow> real
     \<Rightarrow> error + (build_command list \<times> real list \<times> real list)" where
  "girder_node_loop girder_number L division x_loc y_loc centroid rho Acol =
     (let imax = division + 1
      in if imax \<le> 0 then Inr ([], [], [])
         else if division = 0 then Inl ZeroDivisionError
         else Inr (map (\<lambda>j. Node (girder_node_tag girder_number j)
                                 (x_loc + L / of_int division * of_int j) y_loc (- centroid))
                     (py_range 0 imax),
                   map (\<lambda>j. rho * Acol * L / of_int division / 2) (py_range 0 imax),
                   map (\<lambda>j. rho * Acol * L / of_int division / 2) (py_range 0 imax)))"

definition py_set_nth :: "'a list \<Rightarrow> int \<Rightarrow> 'a \<Rightarrow> error + 'a list" where
  "py_set_nth xs i v =
     (if 0 \<le> i \<and> i < int (length xs) then Inr (xs[nat i := v])
      else if i < 0 \<and> - int (length xs) \<le> i then Inr (xs[nat (int (length xs) + i) := v])
      else Inl IndexError)"

definition girder_mass_all :: "real list \<Rightarrow> real list \<Rightarrow> error + real list" where
  "girder_mass_all mass_before mass_after =
     bind_res (py_set_nth mass_before (- 1) 0) (\<lambda>mass_before.
     bind_res (py_set_nth mass_after 0 0) (\<lambda>mass_after.
     Inr (map (\<lambda>ba. fst ba + snd ba) (zip mass_before mass_after))))"

definition girder_mass_loop :: "int \<Rightarrow> int \<Rightarrow> real list \<Rightarrow> error + build_command list" where
  "girder_mass_loop girder_number imax mass_all =
     map_res (\<lambda>j. bind_res (py_nth mass_all j) (\<lambda>m. Inr (Mass (girder_node_tag girder_number j) 0 0 m)))
       (py_range 0 imax)"

text \<open>
  Lines 121 to 140 on their own, with \<^verbatim>\<open>division\<close> and \<^verbatim>\<open>imax\<close> of lines 83 and 84 and
  \<^verbatim>\<open>Acol\<close> of line 96: the node loop, \<^verbatim>\<open>mass_all\<close> and the loop of \<^verbatim>\<open>ops.mass\<close>. The
  result is the mass commands sent to the solver.
\<close>

definition girder_mass_commands ::
  "int \<Rightarrow> real \<Rightarrow> real \<Rightarrow> real \<Rightarrow> real \<Rightarrow> real \<Rightarrow> error + build_command list" where
  "girder_mass_commands girder_number Ag L x_loc y_loc centroid =
     (let division = division_of L;
          imax = division + 1;
          Acol = Ag * 1;
          rho = 25 / 10 ^ 10
      in bind_res (girder_node_loop girder_number L division x_loc y_loc centroid rho Acol)
           (\<lambda>loop.
         bind_res (girder_mass_all (fst (snd loop)) (snd (snd loop))) (\<lambda>mass_all.
         girder_mass_loop girder_number imax mass_all)))"

text \<open>
  Lines 147 to 156: the tags of the domain between \<^verbatim>\<open>lower\<close> and \<^verbatim>\<open>upper\<close>, sorted; the
  domain holds one node per tag. Lines 207 to 212: one beam element per \<open>i\<close> in
  \<^verbatim>\<open>range(0, division)\<close>, from node \<open>i\<close> to node \<open>i + 1\<close> of that array, tagged as node \<open>i\<close>
  (the guard \<^verbatim>\<open>i < imax + 1\<close> always holds there).
\<close>

definition girder_gid_tags :: "int list \<Rightarrow> int \<Rightarrow> int \<Rightarrow> int list" where
  "girder_gid_tags domain_tags girder_number imax =
     (let lower = 1000 * girder_number + 1;
          upper = 1000 * girder_number + imax
      in sort (remdups (filter (\<lambda>t. lower \<le> t \<and> t \<le> upper) domain_tags)))"

definition girder_element_loop ::
  "int list \<Rightarrow> int \<Rightarrow> int \<Rightarrow> error + (build_command list \<times> int) list" where
  "girder_element_loop gid_tags division imax =
     map_res (\<lambda>i. bind_res (py_nth gid_tags i) (\<lambda>ni.
                     if i < imax + 1
                     then bind_res (py_nth gid_tags (i + 1)) (\<lambda>nj. Inr ([Element ni ni nj], ni))
                     else Inr ([], ni)))
       (py_range 0 division)"

text \<open>
  \<^verbatim>\<open>Analysis.girder\<close> as a whole. Its parameters are read from \<^verbatim>\<open>self.params\<close> (lines 72
  to 80, \<open>girder_params\<close>); \<^verbatim>\<open>yt3\<close> (line 88), \<^verbatim>\<open>Ep\<close> (line 106), \<^verbatim>\<open>z_coef_list\<close> and \<^verbatim>\<open>y_coef_list\<close>
  (lines 178 and 179) and \<^verbatim>\<open>number_tendon\<close> (line 194, inside the loop over the nodes)
  are read as module-level names. \<open>domain_tags\<close> are the node tags the solver holds when
  the method is called. The result keeps the tag column of \<^verbatim>\<open>nodes[name]\<close>, the array
  \<^verbatim>\<open>beam_el[name]\<close> and the commands sent.
\<close>

record girder_built =
  gb_tags :: "int list"
  gb_elements :: "int list"
  gb_log :: "build_command list"

definition command_tag :: "build_command \<Rightarrow> int" where
  "command_tag c = (case c of Node t x y z \<Rightarrow> t | Mass t x y z \<Rightarrow> t
                    | Element t a b \<Rightarrow> t | ShellElement t ns \<Rightarrow> t)"

record girder_args =
  ga_dims :: "real list"
  ga_tendon_horizontal_length :: real
  ga_y_intercept_list :: "pyval list"
  ga_z_intercept_list :: "pyval list"
  ga_Ap_N :: "pyval list"
  ga_Ag :: real

definition girder_params :: "pyruntime \<Rightarrow> pydict \<Rightarrow> error + girder_args" where
  "girder_params rt p =
     bind_res (map_res (\<lambda>k. py_float rt (dict_get_default p k (PNum 0)))
                 [''h1'', ''h2'', ''h3'', ''h4'', ''h5'', ''b1'', ''b2'', ''b3'', ''b4'', ''b5'',
                  ''girder_H'']) (\<lambda>dims.
     bind_res (py_float rt (dict_get_default p ''tendon_horizontal_length''
                              (dict_get_default p ''girder_length'' (PNum 0)))) (\<lambda>tendon_horizontal_length.
     bind_res (py_list (dict_get_default p ''y_intercept_list'' (PList []))) (\<lambda>y_intercept_list.
     bind_res (py_list (dict_get_default p ''z_intercept_list'' (PList []))) (\<lambda>z_intercept_list.
     bind_res (py_list (dict_get_default p ''Ap_N'' (PList []))) (\<lambda>Ap_N.
     bind_res (py_float rt (dict_get_default p ''Ag'' (PNum 0))) (\<lambda>Ag.
     Inr \<lparr>ga_dims = dims, ga_tendon_horizontal_length = tendon_horizontal_length,
          ga_y_intercept_list = y_intercept_list, ga_z_intercept_list = z_intercept_list,
          ga_Ap_N = Ap_N, ga_Ag = Ag\<rparr>))))))"

definition Analysis_girder ::
  "pyruntime \<Rightarrow> analysis \<Rightarrow> int list \<Rightarrow> int \<Rightarrow> pyval \<Rightarrow> real \<Rightarrow> real \<Rightarrow> error + girder_built" where
  "Analysis_girder rt self domain_tags girder_number Ec Pe spacing =
     bind_res (girder_params rt (an_params self)) (\<lambda>ga.
     let L = an_L self;
         division = division_of L;
         imax = division + 1;
         x_loc = - 1 * spacing * tan (an_skew self * pi / 180) * 1000;
         y_loc = spacing * 1000
     in bind_res (bind_res (load_global ''yt3'') as_number) (\<lambda>centroid.
        let Acol = ga_Ag ga * 1
        in bind_res (bind_res (load_global ''Ep'') as_number) (\<lambda>Ep.
           bind_res (as_number Ec) (\<lambda>Ec.
           let rho = 25 / 10 ^ 10
           in bind_res (girder_node_loop girder_number L division x_loc y_loc centroid rho Acol)
                (\<lambda>loop.
              bind_res (girder_mass_all (fst (snd loop)) (snd (snd loop))) (\<lambda>mass_all.
              bind_res (girder_mass_loop girder_number imax mass_all) (\<lambda>masses.
              let gid_tags = girder_gid_tags (domain_tags @ map command_tag (fst loop))
                               girder_number imax
              in bind_res (load_global ''z_coef_list'') (\<lambda>z_coef_list.
                 bind_res (load_global ''y_coef_list'') (\<lambda>y_coef_list.
                 bind_res (if 0 < imax then load_global ''number_tendon'' else Inr PNone)
                   (\<lambda>number_tendon.
                 bind_res (girder_element_loop gid_tags division imax) (\<lambda>els.
                 Inr \<lparr>gb_tags = gid_tags,
                      gb_elements = map snd els,
                      gb_log = fst loop @ masses @ concat (map fst els)\<rparr>)))))))))))"

text \<open>
  \<^verbatim>\<open>Analysis.diaphragm\<close>: its second statement reads the module-level name
  \<^verbatim>\<open>girder_spacing\<close>; then one node per girder, \<^verbatim>\<open>mass_before[-1] = 0\<close>, and one element
  per girder bay with \<^verbatim>\<open>Ec[i-1]\<close>. The result is the array of node tags.
\<close>

definition Analysis_diaphragm ::
  "int \<Rightarrow> int \<Rightarrow> int list \<Rightarrow> pyval list \<Rightarrow> int \<Rightarrow> error + int list" where
  "Analysis_diaphragm bridge_number number node Ec nums_girder =
     bind_res (load_global ''girder_spacing'') (\<lambda>girder_spacing.
     bind_res (map_res (\<lambda>i. py_nth node (i - 1)) (py_range 1 (1 + nums_girder))) (\<lambda>at_nodes.
     if nums_girder \<le> 0 then Inl IndexError
     else bind_res (map_res (\<lambda>i. py_nth Ec (i - 1)) (py_range 1 nums_girder)) (\<lambda>Ec1.
          Inr (diaphragm_node_tags bridge_number number nums_girder))))"

text \<open>\<^verbatim>\<open>Analysis.spring\<close> returns \<^verbatim>\<open>[support_node, spring_node]\<close>.\<close>

definition Analysis_spring :: "int \<Rightarrow> int \<times> int" where
  "Analysis_spring spring_number = (support_node_tag spring_number, spring_node_tag spring_number)"

subsection \<open>Deck and pavement lines\<close>

text \<open>
  Of \<^verbatim>\<open>Analysis.deck\<close> and \<^verbatim>\<open>Analysis.pavement\<close> the node loop of one seam line (lines 337 to
  341 and 244 to 248) and the element loop of one strip between two seam lines (lines
  364 to 371 and 271 to 278) are modelled: \<^verbatim>\<open>division + 1\<close> nodes at
  \<^verbatim>\<open>x0 + L/division*j\<close>, and one shell element for every \<open>j\<close> in \<^verbatim>\<open>range(1, imax)\<close> on
  the nodes \<open>j - 1\<close> and \<open>j\<close> of both lines, tagged as node \<open>j - 1\<close> of the first.
\<close>

definition deck_line_loop ::
  "int \<Rightarrow> real \<Rightarrow> int \<Rightarrow> int \<Rightarrow> real \<Rightarrow> real \<Rightarrow> real \<Rightarrow> error + build_command list" where
  "deck_line_loop deck_number L division s x0 y z =
     (if division + 1 \<le> 0 then Inr []
      else if division = 0 then Inl ZeroDivisionError
      else Inr (map (\<lambda>j. Node (deck_node_tag deck_number s j)
                              (x0 + L / of_int division * of_int j) y z)
                  (py_range 0 (division + 1))))"

definition deck_strip_loop :: "int list \<Rightarrow> int list \<Rightarrow> int \<Rightarrow> error + build_command list" where
  "deck_strip_loop line_a line_b imax =
     map_res (\<lambda>j. bind_res (py_nth line_a (j - 1)) (\<lambda>a0.
                   bind_res (py_nth line_a j) (\<lambda>a1.
                   bind_res (py_nth line_b j) (\<lambda>b1.
                   bind_res (py_nth line_b (j - 1)) (\<lambda>b0.
                   Inr (ShellElement a0 [a0, a1, b1, b0]))))))
       (py_range 1 imax)"

subsection \<open>\<^verbatim>\<open>build_bridge_model\<close>\<close>

text \<open>The parameters unpacked at the top of \<^verbatim>\<open>build_bridge_model\<close> (lines 619 to 638).\<close>

record build_args =
  ba_Bridge_width :: real
  ba_Bridge_skew :: real
  ba_girder_number :: int
  ba_girder_length :: real
  ba_girder_spacing :: real
  ba_Left_Cantilever :: real
  ba_Right_Cantilever :: real
  ba_gravity :: real
  ba_E_girder1 :: "pyval list"
  ba_E_girder2 :: "pyval list"
  ba_E_deck1 :: "pyval list"
  ba_E_deck2 :: "pyval list"
  ba_thickness1 :: "pyval list"
  ba_thickness2 :: "pyval list"
  ba_Bearing_Stiffness :: pyval
  ba_PE :: real
  ba_pave_thick :: "pyval list"
  ba_diaphragm1_Ec :: "pyval list"
  ba_diaphragm2_Ec :: "pyval list"

definition unpack_params :: "pyruntime \<Rightarrow> pydict \<Rightarrow> error + build_args" where
  "unpack_params rt p =
     bind_res (bind_res (dict_item p ''Bridge_width'') (py_float rt)) (\<lambda>Bridge_width.
     bind_res (py_float rt (dict_get_default p ''Bridge_skew'' (PNum 0))) (\<lambda>Bridge_skew.
     bind_res (bind_res (dict_item p ''girder_number'') (py_int rt)) (\<lambda>girder_number.
     bind_res (bind_res (dict_item p ''girder_length'') (py_float rt)) (\<lambda>girder_length.
     bind_res (bind_res (dict_item p ''girder_spacing'') (py_float rt)) (\<lambda>girder_spacing.
     bind_res (py_float rt (dict_get_default p ''Left_Cantilever'' (PNum 0))) (\<lambda>Left_Cantilever.
     bind_res (py_float rt (dict_get_default p ''Right_Cantilever'' (PNum 0))) (\<lambda>Right_Cantilever.
     bind_res (py_float rt (dict_get_default p ''gravity'' (PNum (- 981 / 100)))) (\<lambda>gravity.
     bind_res (py_list (dict_get_default p ''E_girder1'' (PList []))) (\<lambda>E_girder1.
     bind_res (py_list (dict_get_default p ''E_girder2'' (PList []))) (\<lambda>E_girder2.
     bind_res (py_list (dict_get_default p ''E_deck1'' (PList []))) (\<lambda>E_deck1.
     bind_res (py_list (dict_get_default p ''E_deck2'' (PList []))) (\<lambda>E_deck2.
     bind_res (py_list (dict_get_default p ''thickness1'' (PList []))) (\<lambda>thickness1.
     bind_res (py_list (dict_get_default p ''thickness2'' (PList []))) (\<lambda>thickness2.
     bind_res (np_array rt (dict_get_default p ''Bearing_Stiffness'' PNone)) (\<lambda>Bearing_Stiffness.
     bind_res (py_float rt (dict_get_default p ''PE'' (PNum 600))) (\<lambda>PE.
     bind_res (py_list (dict_get_default p ''pave_thick'' (PList [PNum 80]))) (\<lambda>pave_thick.
     bind_res (py_list (dict_get_default p ''diaphragm1_Ec'' (PList []))) (\<lambda>diaphragm1_Ec.
     bind_res (py_list (dict_get_default p ''diaphragm2_Ec'' (PList []))) (\<lambda>diaphragm2_Ec.
     Inr \<lparr>ba_Bridge_width = Bridge_width, ba_Bridge_skew = Bridge_skew,
          ba_girder_number = girder_number, ba_girder_length = girder_length,
          ba_girder_spacing = girder_spacing, ba_Left_Cantilever = Left_Cantilever,
          ba_Right_Cantilever = Right_Cantilever, ba_gravity = gravity,
          ba_E_girder1 = E_girder1, ba_E_girder2 = E_girder2, ba_E_deck1 = E_deck1,
          ba_E_deck2 = E_deck2, ba_thickness1 = thickness1, ba_thickness2 = thickness2,
          ba_Bearing_Stiffness = Bearing_Stiffness, ba_PE = PE, ba_pave_thick = pave_thick,
          ba_diaphragm1_Ec = diaphragm1_Ec,
          ba_diaphragm2_Ec = diaphragm2_Ec\<rparr>)))))))))))))))))))"

text \<open>
  The scratchpad \<^verbatim>\<open>ctx\<close>: \<^verbatim>\<open>'girder' + str(i)\<close>, \<^verbatim>\<open>f'crossbeam{idx+1}_1'\<close> and
  \<^verbatim>\<open>'spring' + str(k)\<close> are its keys; the result \<^verbatim>\<open>BuiltModel(analysis, params, ctx)\<close>.
\<close>

datatype ctx_key = GirderKey int | CrossbeamKey nat | SpringKey int

datatype ctx_val = GirderVal girder_built | NodesVal "int list" | SpringVal "int \<times> int"

type_synonym ctx = "(ctx_key \<times> ctx_val) list"

record BuiltModel =
  bm_analysis :: analysis
  bm_params :: pydict
  bm_ctx :: ctx

record environment =
  env_runtime :: pyruntime
  env_ops_loaded :: bool

definition np_round3 :: "real \<Rightarrow> real" where
  "np_round3 x = of_int (round_half_even (x * 1000)) / 1000"

definition ctx_girder_tags :: "ctx \<Rightarrow> int \<Rightarrow> error + int list" where
  "ctx_girder_tags c i =
     (case map_of c (GirderKey i) of
        Some (GirderVal g) \<Rightarrow> Inr (gb_tags g)
      | Some v \<Rightarrow> Inl TypeError
      | None \<Rightarrow> Inl (KeyError ''girder''))"

definition array_row :: "pyval \<Rightarrow> int \<Rightarrow> error + pyval" where
  "array_row a i = (case a of PList rows \<Rightarrow> py_nth rows i | _ \<Rightarrow> Inl IndexError)"

text \<open>
  Lines 656 and 657, one turn of the loop over the girders: the arguments
  \<^verbatim>\<open>E_girder1[i-1]\<close> and \<^verbatim>\<open>girder_spacing_cumsum[i-1]\<close>, the call, the entry of \<^verbatim>\<open>ctx\<close>.
  The state is \<^verbatim>\<open>ctx\<close> with the node tags of the solver's domain.
\<close>

definition girder_step ::
  "pyruntime \<Rightarrow> analysis \<Rightarrow> pyval list \<Rightarrow> real \<Rightarrow> real list \<Rightarrow> int
     \<Rightarrow> ctx \<times> int list \<Rightarrow> error + (ctx \<times> int list)" where
  "girder_step rt Bridge1 E_girder1 PE girder_spacing_cumsum i st =
     bind_res (py_nth E_girder1 (i - 1)) (\<lambda>Ec.
     bind_res (py_nth girder_spacing_cumsum (i - 1)) (\<lambda>spacing.
     bind_res (Analysis_girder rt Bridge1 (snd st) i Ec PE spacing) (\<lambda>g.
     Inr (AList.update (GirderKey i) (GirderVal g) (fst st),
          snd st @ map command_tag (filter (\<lambda>c. case c of Node t x y z \<Rightarrow> True | _ \<Rightarrow> False)
                                      (gb_log g))))))"

text \<open>Lines 678 and 679, one cross beam; lines 681 to 683, the two bearings of one girder.\<close>

definition crossbeam_step ::
  "int list list \<Rightarrow> pyval list \<Rightarrow> int \<Rightarrow> nat \<times> nat \<Rightarrow> ctx \<Rightarrow> error + ctx" where
  "crossbeam_step node_array diaphragm2_Ec nums_girder it c =
     (case it of (idx, tag) \<Rightarrow>
        bind_res (py_nth node_array (int tag)) (\<lambda>node.
        bind_res (Analysis_diaphragm 1 (3 + int idx) node diaphragm2_Ec nums_girder) (\<lambda>d.
        Inr (AList.update (CrossbeamKey (idx + 1)) (NodesVal d) c))))"

definition spring_step :: "pyval \<Rightarrow> int \<Rightarrow> int \<Rightarrow> ctx \<Rightarrow> error + ctx" where
  "spring_step Bearing_Stiffness nums_girder i c =
     bind_res (ctx_girder_tags c i) (\<lambda>tags.
     bind_res (py_nth tags 0) (\<lambda>first.
     bind_res (load_global ''girder_H'') (\<lambda>girder_H.
     bind_res (array_row Bearing_Stiffness (i - 1)) (\<lambda>row1.
     let c = AList.update (SpringKey (i * 2 - 1)) (SpringVal (Analysis_spring (i * 2 - 1))) c
     in bind_res (ctx_girder_tags c i) (\<lambda>tags.
        bind_res (py_nth tags (- 1)) (\<lambda>last.
        bind_res (load_global ''girder_H'') (\<lambda>girder_H.
        bind_res (array_row Bearing_Stiffness (nums_girder + i - 1)) (\<lambda>row2.
        Inr (AList.update (SpringKey (i * 2)) (SpringVal (Analysis_spring (i * 2))) c)))))))))"

text \<open>
  \<^verbatim>\<open>build_bridge_model(params)\<close> in three stages: the unpacking above; lines 639 to 657,
  the \<^verbatim>\<open>Analysis\<close> object and the loop over the girders; lines 659 to 724, the rest.
  The calls of \<^verbatim>\<open>ops.wipe\<close> and \<^verbatim>\<open>ops.model\<close>, of \<^verbatim>\<open>deck\<close>, \<^verbatim>\<open>barrier\<close> and \<^verbatim>\<open>pavement\<close> and the
  rigid links only act on the solver and on local variables that the result does not
  hold; they and the numpy calls on the seam positions are passed over as if they
  returned, so the model returns wherever the source does. \<^verbatim>\<open>node_array\<close> is \<^verbatim>\<open>np.array(node_number, dtype=np.int16).T\<close>, the
  16-bit range of which is not modelled. \<^verbatim>\<open>girder_H\<close> (lines 682 and 683) and
  \<^verbatim>\<open>girder1\<close> (line 685) are read as module-level names.
\<close>

definition bridge_analysis :: "pydict \<Rightarrow> build_args \<Rightarrow> analysis" where
  "bridge_analysis p a =
     Analysis_init (ba_girder_length a / 1000) (ba_Bridge_width a) (ba_girder_number a)
       (ba_Bridge_skew a) p"

definition build_girders :: "pyruntime \<Rightarrow> pydict \<Rightarrow> build_args \<Rightarrow> error + (ctx \<times> int list)" where
  "build_girders rt p a =
     (let nums_girder = ba_girder_number a;
          Bridge1 = bridge_analysis p a;
          spacing = ba_girder_spacing a;
          girder_spacing_cumsum =
            map np_round3 [ba_Left_Cantilever a,
                           ba_Left_Cantilever a + spacing * of_int (nums_girder - 1)]
      in fold_res (girder_step rt Bridge1 (ba_E_girder1 a) (ba_PE a) girder_spacing_cumsum)
           (py_range 1 (nums_girder + 1)) ([], []))"

definition crossbeam_indices :: "real \<Rightarrow> error + nat list" where
  "crossbeam_indices girder_length =
     (let crossbeam_list = [5000, 10000, 15000, 20000, 25000];
          division = trunc (girder_length / 1000 * 5);
          imax = division + 1
      in if 0 < imax \<and> division = 0 then Inl ZeroDivisionError
         else
           (let x_coords_array =
                  map (\<lambda>j. girder_length / of_int division * of_int j) (py_range 0 imax)
            in Inr (filter (\<lambda>j. x_coords_array ! j \<in> set crossbeam_list)
                      [0 ..< length x_coords_array])))"

definition build_rest :: "pydict \<Rightarrow> build_args \<Rightarrow> ctx \<Rightarrow> error + BuiltModel" where
  "build_rest p a c =
     (let nums_girder = ba_girder_number a
      in bind_res (map_res (ctx_girder_tags c) (py_range 1 (ba_girder_number a + 1)))
           (\<lambda>node_number.
         let node_array = transpose node_number
         in bind_res (py_nth node_array 0) (\<lambda>first.
            bind_res (Analysis_diaphragm 1 1 first (ba_diaphragm1_Ec a) nums_girder)
              (\<lambda>diaphragm_start1.
            bind_res (py_nth node_array (- 1)) (\<lambda>last.
            bind_res (Analysis_diaphragm 1 2 last (ba_diaphragm2_Ec a) nums_girder)
              (\<lambda>diaphragm_end1.
            bind_res (crossbeam_indices (ba_girder_length a)) (\<lambda>crossbeam_index.
            bind_res (fold_res (crossbeam_step node_array (ba_diaphragm2_Ec a) nums_girder)
                        (zip [0 ..< length crossbeam_index] crossbeam_index) c) (\<lambda>c.
            bind_res (fold_res (spring_step (ba_Bearing_Stiffness a) nums_girder)
                        (py_range 1 (nums_girder + 1)) c) (\<lambda>c.
            bind_res (load_global ''girder1'') (\<lambda>girder1.
            Inr \<lparr>bm_analysis = bridge_analysis p a, bm_params = p, bm_ctx = c\<rparr>))))))))))"

definition build_bridge_model :: "environment \<Rightarrow> pydict \<Rightarrow> error + BuiltModel" where
  "build_bridge_model env params =
     (if \<not> env_ops_loaded env then Inl ImportError
      else
        (let rt = env_runtime env; p = params
         in bind_res (unpack_params rt p) (\<lambda>a.
            bind_res (build_girders rt p a) (\<lambda>st.
            build_rest p a (fst st)))))"

text \<open>An environment with the solver package loaded, for closed statements.\<close>

definition demo_env :: environment where
  "demo_env = \<lparr>env_runtime = plain_runtime, env_ops_loaded = True\<rparr>"


section \<open>The analyses: \<^verbatim>\<open>analysis/modal.py\<close> and \<^verbatim>\<open>run_moving_load\<close>\<close>

text \<open>
  What the analyses ask of the solver, as unknown functions of its state \<open>'s\<close>: the
  state a completed build leaves behind, \<^verbatim>\<open>Analysis.static_analysis_load\<close> (a sequence of
  solver calls) with its pattern tag, node and vertical load, and the queries
  \<^verbatim>\<open>nodeDisp\<close>, \<^verbatim>\<open>eigen\<close>, \<^verbatim>\<open>getNodeTags\<close> and \<^verbatim>\<open>nodeCoord\<close>.
\<close>

record 's solver =
  sv_built :: 's
  sv_static_analysis_load :: "'s \<Rightarrow> int \<Rightarrow> int \<Rightarrow> real \<Rightarrow> 's"
  sv_nodeDisp :: "'s \<Rightarrow> int \<Rightarrow> nat \<Rightarrow> real"
  sv_eigen :: "'s \<Rightarrow> int \<Rightarrow> real list"
  sv_getNodeTags :: "'s \<Rightarrow> int list"
  sv_nodeCoord :: "'s \<Rightarrow> int \<Rightarrow> real list"

text \<open>
  \<^verbatim>\<open>run_modal\<close> up to its return value \<^verbatim>\<open>(natural_frequency, eigen_values, deflections)\<close>;
  the JSON file is not modelled. \<open>None\<close> for \<^verbatim>\<open>point_load_n\<close> or \<^verbatim>\<open>num_eigen\<close> is the
  default argument.
\<close>

definition run_modal ::
  "environment \<Rightarrow> 's solver \<Rightarrow> pydict \<Rightarrow> int list \<Rightarrow> int \<times> int \<Rightarrow> real option \<Rightarrow> int option
     \<Rightarrow> error + (real option list \<times> real list \<times> real list)" where
  "run_modal env sv params check_nodes load_nodes point_load_n num_eigen =
     (if \<not> env_ops_loaded env then Inl ImportError
      else
        bind_res (build_bridge_model env params) (\<lambda>bridge1.
        bind_res (case point_load_n of
                    None \<Rightarrow> py_float (env_runtime env)
                              (dict_get_default params ''point_load_n'' (PNum (- 290 * 1000)))
                  | Some v \<Rightarrow> Inr v) (\<lambda>point_load_n.
        bind_res (case num_eigen of
                    None \<Rightarrow> py_int (env_runtime env) (dict_get_default params ''numEigen'' (PNum 3))
                  | Some n \<Rightarrow> Inr n) (\<lambda>num_eigen.
        let s1 = sv_static_analysis_load sv (sv_built sv) 1 (fst load_nodes) 0;
            before = map (\<lambda>n. sv_nodeDisp sv s1 n 3) check_nodes;
            s2 = sv_static_analysis_load sv s1 2 (fst load_nodes) (point_load_n / 2);
            s3 = sv_static_analysis_load sv s2 3 (snd load_nodes) (point_load_n / 2);
            after = map (\<lambda>n. sv_nodeDisp sv s3 n 3) check_nodes;
            deflections = map (\<lambda>ab. fst ab - snd ab) (zip after before);
            eigen_values = sv_eigen sv s3 num_eigen;
            natural_frequency = map (\<lambda>e. map_option (\<lambda>w. w / (2 * pi)) (np_sqrt e)) eigen_values
        in Inr (natural_frequency, eigen_values, deflections)))))"

text \<open>\<^verbatim>\<open>_get_girder_tags\<close>: the \<^verbatim>\<open>n_nodes\<close> tags from the start tag on, \<^verbatim>\<open>tags[i0 : i0 + n]\<close>.\<close>

definition get_girder_tags :: "int list \<Rightarrow> int \<Rightarrow> int \<Rightarrow> error + int list" where
  "get_girder_tags tags start_tag n_nodes =
     (let i0 = length (takeWhile (\<lambda>t. t \<noteq> start_tag) tags);
          stop = int i0 + n_nodes;
          stop = (if stop < 0 then max 0 (int (length tags) + stop) else stop)
      in if i0 = length tags then Inl RuntimeError
         else Inr (drop i0 (take (nat stop) tags)))"

definition girder_line_of :: "'s solver \<Rightarrow> 's \<Rightarrow> int list \<Rightarrow> error + girder_line" where
  "girder_line_of sv s tags =
     (if tags = [] then Inl IndexError
      else bind_res (map_res (\<lambda>nd. py_nth (sv_nodeCoord sv s nd) 0) tags) (\<lambda>xs.
           Inr \<lparr>line_tags = tags, line_x = xs\<rparr>))"

text \<open>
  \<^verbatim>\<open>run_moving_load\<close> up to the commands it sends before \<^verbatim>\<open>ops.analyze\<close>: the Rayleigh
  damping and the time series, patterns and loads of the two lines. Recorders, files
  and the plot are not modelled.
\<close>

definition run_moving_load ::
  "environment \<Rightarrow> 's solver \<Rightarrow> pydict \<Rightarrow> real list \<Rightarrow> real list \<Rightarrow> error + solver_command list" where
  "run_moving_load env sv params vehicle_loads_n vehicle_distances_mm =
     (if \<not> env_ops_loaded env then Inl ImportError
      else
        (let rt = env_runtime env
         in bind_res (build_bridge_model env params) (\<lambda>built.
            bind_res (py_int rt (dict_get_default params ''numEigen'' (PNum 3))) (\<lambda>numEigen.
            let s = sv_built sv;
                eigen_value = sv_eigen sv s numEigen
            in bind_res (py_int rt (dict_get_default params ''girder3_start_tag'' (PNum 3001))) (\<lambda>start3.
               bind_res (py_int rt (dict_get_default params ''girder_n_nodes'' (PNum 149))) (\<lambda>n_nodes.
               bind_res (get_girder_tags (sv_getNodeTags sv s) start3 n_nodes) (\<lambda>girder3.
               bind_res (py_int rt (dict_get_default params ''girder4_start_tag'' (PNum 4001))) (\<lambda>start4.
               bind_res (get_girder_tags (sv_getNodeTags sv s) start4 n_nodes) (\<lambda>girder4.
               bind_res (girder_line_of sv s girder3) (\<lambda>g3.
               bind_res (girder_line_of sv s girder4) (\<lambda>g4.
               bind_res (py_float rt (dict_get_default params ''velocity_kmh'' (PNum 10))) (\<lambda>velocity_kmh.
               bind_res (py_float rt (dict_get_default params ''dt'' (PNum (1 / 10)))) (\<lambda>dt.
               bind_res (load_history g3 g4 velocity_kmh dt vehicle_loads_n vehicle_distances_mm)
                 (\<lambda>hist.
               bind_res (py_float rt (dict_get_default params ''zeta'' (PNum (15 / 1000)))) (\<lambda>zeta.
               bind_res (rayleigh_command eigen_value zeta) (\<lambda>damping.
               Inr (damping
                    # create_pathseries_from_history dt (fst (snd hist)) 3
                    @ create_pathseries_from_history dt (snd (snd hist)) 4)))))))))))))))))"

section \<open>Properties of the configuration\<close>

lemma bind_res_Inl [simp]: "bind_res (Inl e) f = Inl e"
  by (simp add: bind_res_def)

lemma bind_res_Inr [simp]: "bind_res (Inr x) f = f x"
  by (simp add: bind_res_def)

lemma map_of_dict_update:
  "map_of (dict_update d e) k = (case map_of (rev e) k of None \<Rightarrow> map_of d k | Some v \<Rightarrow> Some v)"
  unfolding dict_update_def
proof (induction e arbitrary: d)
  case Nil
  show ?case by simp
next
  case (Cons x e)
  show ?case
    by (simp add: Cons.IH AList.update_conv' map_add_def split: option.splits)
qed

lemma base_girder_number: "map_of get_default_base_params ''girder_number'' = Some (PNum 6)"
  by (simp add: get_default_base_params_def DEFAULT_BASE_PARAMS_def)

lemma label_case2: "py_lower (py_strip ''case2'') = ''case2''"
  by (simp add: py_lower_def py_strip_def is_space_def lower_char_def)

lemma label_baseline: "py_lower (py_strip ''baseline'') = ''baseline''"
  by (simp add: py_lower_def py_strip_def is_space_def lower_char_def)

lemma trunc_6: "trunc 6 = 6"
  by (simp add: trunc_def)

lemmas cfg_simps = make_params_def default_params_def dict_get_default_def dict_get_def
  dict_item_def dict_set_def dict_pop_def rebuild_bearing_def CASE_OVERRIDES_def
  base_girder_number trunc_6 Let_def map_of_dict_update AList.update_conv'
  bearing_table_def label_case2 label_baseline

lemmas table_simps = table_val_def Bearing_Stiffness_table_def table_scale_def
  rows_A1_def rows_A2_def

text \<open>The two tables, computed: only the first six rows carry the multiplier.\<close>

lemma table_case2:
  "bearing_table (make_params rt ''case2'') =
     Bearing_Stiffness_table 0 1000000 80000 100000 (5 / 10)"
  apply (simp add: cfg_simps)
  apply (simp add: table_simps)
  done

lemma table_baseline:
  "bearing_table (make_params rt ''baseline'') =
     Bearing_Stiffness_table 0 1000000 80000 100000 (3 / 10)"
  apply (simp add: cfg_simps)
  apply (simp add: table_simps)
  done

lemma below_six: "i < 6 \<Longrightarrow> i = 0 \<or> i = 1 \<or> i = 2 \<or> i = 3 \<or> i = 4 \<or> i = (5::nat)"
  by arith

lemma rows_A1_shape:
  "length (rows_A1 f c c1 cc) = 6" "i < 6 \<Longrightarrow> length (rows_A1 f c c1 cc ! i) = 6"
  using below_six [of i] by (auto simp: rows_A1_def)

lemma table_upper:
  assumes "i < 6" "j < 6"
  shows "Bearing_Stiffness_table f c c1 cc bm ! i ! j = rows_A1 f c c1 cc ! i ! j * bm"
  using assms by (simp add: Bearing_Stiffness_table_def table_scale_def nth_append rows_A1_shape)

lemma table_lower:
  assumes "6 \<le> i"
  shows "Bearing_Stiffness_table f c c1 cc bm ! i = rows_A2 f c c1 cc ! (i - 6)"
  using assms by (simp add: Bearing_Stiffness_table_def table_scale_def nth_append rows_A1_shape)

text \<open>
  C1 (as the code has it). In the table of \<^verbatim>\<open>make_params("case2")\<close> every entry of the
  first six rows (abutment A1) is the baseline entry divided by 0.3 and multiplied by
  0.5; every entry of the last six rows (abutment A2) is the baseline entry itself,
  since neither \<^verbatim>\<open>_default_params\<close> nor \<^verbatim>\<open>make_params\<close> applies the multiplier there.
\<close>

theorem case2_bearing_table:
  "i < 12 \<Longrightarrow> j < 6 \<Longrightarrow>
     bearing_table (make_params rt ''case2'') ! i ! j =
       (if i < 6 then bearing_table (make_params rt ''baseline'') ! i ! j / (3 / 10) * (5 / 10)
        else bearing_table (make_params rt ''baseline'') ! i ! j)"
  by (simp add: table_case2 table_baseline table_upper table_lower)

theorem case2_bearing_table_witness:
  "bearing_table (make_params plain_runtime ''case2'') ! 0 ! 1 =
     bearing_table (make_params plain_runtime ''baseline'') ! 0 ! 1 / (3 / 10) * (5 / 10)
   \<and> bearing_table (make_params plain_runtime ''case2'') ! 6 ! 0 =
     bearing_table (make_params plain_runtime ''baseline'') ! 6 ! 0"
  using case2_bearing_table [of 0 1 plain_runtime] case2_bearing_table [of 6 0 plain_runtime]
  by simp

text \<open>
  C1 (as the specification has it) fails in row 6, column 0: the case2 entry is 80000,
  the baseline entry divided by 0.3 and multiplied by 0.5 is 400000/3.
\<close>

theorem case2_bearing_table_counterexample:
  "bearing_table (make_params plain_runtime ''case2'') ! 6 ! 0 \<noteq>
     bearing_table (make_params plain_runtime ''baseline'') ! 6 ! 0 / (3 / 10) * (5 / 10)"
  by (simp add: table_case2 table_baseline table_lower rows_A2_def)

section \<open>Properties of the moving-load engine\<close>

lemma searchsorted_count:
  assumes "sorted_wrt (<) a" "n \<le> length a"
    and below: "\<And>i. i < n \<Longrightarrow> a ! i < v"
    and above: "n < length a \<Longrightarrow> v \<le> a ! n"
  shows "searchsorted a v = n"
proof -
  have "takeWhile (\<lambda>x. x < v) a = take n a"
    by (rule takeWhile_eq_take_P_nth) (use below above in auto)
  then show ?thesis using assms(2) by (simp add: searchsorted_def)
qed

lemma searchsorted_bracket:
  assumes "sorted_wrt (<) a" "Suc k < length a" "a ! k < v" "v \<le> a ! Suc k"
  shows "searchsorted a v = Suc k"
proof (rule searchsorted_count)
  fix i assume "i < Suc k"
  then have "i = k \<or> i < k" by arith
  then show "a ! i < v"
  proof
    assume "i = k" then show ?thesis using assms(3) by simp
  next
    assume "i < k"
    then have "a ! i < a ! k" using assms(1,2) by (simp add: sorted_wrt_nth_less)
    then show ?thesis using assms(3) by simp
  qed
qed (use assms in auto)

lemma searchsorted_node:
  assumes "sorted_wrt (<) a" "k < length a"
  shows "searchsorted a (a ! k) = k"
proof (rule searchsorted_count)
  fix i assume "i < k"
  then show "a ! i < a ! k" using assms by (simp add: sorted_wrt_nth_less)
qed (use assms in auto)

lemma searchsorted_le: "searchsorted a v \<le> length a"
  by (simp add: searchsorted_def length_takeWhile_le)

lemma py_nth_nat: "i < length xs \<Longrightarrow> py_nth xs (int i) = Inr (xs ! i)"
  by (simp add: py_nth_def)

lemma py_nth_last: "xs \<noteq> [] \<Longrightarrow> py_nth xs (- 1) = Inr (last xs)"
  by (cases xs) (simp_all add: py_nth_def last_conv_nth nat_diff_distrib')

lemma history_at_update:
  "history_at (AList.update nd vals h) nd' it' = (if nd' = nd then vals ! it' else history_at h nd' it')"
  by (simp add: history_at_def AList.update_conv')

lemma history_covers_lookup:
  assumes "history_covers h girder n" "k < length girder"
  shows "\<exists>vals. map_of h (girder ! k) = Some vals \<and> length vals = n"
proof -
  have "girder ! k \<in> set girder" using assms(2) by simp
  then show ?thesis using assms(1)
    by (auto simp: history_covers_def list_all_iff split: option.splits)
qed

lemma history_add_effect:
  assumes "map_of h nd = Some vals" "it < length vals"
  shows "\<exists>h'. history_add h nd it v = Inr h'
           \<and> (\<forall>nd' it'. history_at h' nd' it' = history_at h nd' it' + (if nd' = nd \<and> it' = it then v else 0))
           \<and> (\<forall>nd'. map_option length (map_of h' nd') = map_option length (map_of h nd'))"
  using assms
  by (auto simp: history_add_def history_at_def AList.update_conv' nth_list_update)

lemma two_adds:
  assumes "map_of h a = Some va" "it < length va" "map_of h b = Some vb" "it < length vb"
  shows "\<exists>h'. bind_res (history_add h a it u) (\<lambda>h1. history_add h1 b it w) = Inr h'
           \<and> (\<forall>nd it'. history_at h' nd it' = history_at h nd it'
                  + (if nd = a \<and> it' = it then u else 0) + (if nd = b \<and> it' = it then w else 0))"
proof -
  from history_add_effect [OF assms(1,2), of u] obtain h1 where
    h1: "history_add h a it u = Inr h1"
    "\<forall>nd' it'. history_at h1 nd' it' = history_at h nd' it' + (if nd' = a \<and> it' = it then u else 0)"
    "\<forall>nd'. map_option length (map_of h1 nd') = map_option length (map_of h nd')"
    by blast
  from h1(3) assms(3,4) obtain vb' where vb': "map_of h1 b = Some vb'" "it < length vb'"
    by (metis map_option_eq_Some option.simps(9))
  from history_add_effect [OF vb', of w] obtain h2 where
    h2: "history_add h1 b it w = Inr h2"
    "\<forall>nd' it'. history_at h2 nd' it' = history_at h1 nd' it' + (if nd' = b \<and> it' = it then w else 0)"
    by blast
  show ?thesis using h1(1,2) h2 by (simp add: bind_res_def)
qed


lemma py_nth_0: "xs \<noteq> [] \<Longrightarrow> py_nth xs 0 = Inr (xs ! 0)"
  by (simp add: py_nth_def)

lemma py_nth_Suc: "Suc i < length xs \<Longrightarrow> py_nth xs (int i + 1) = Inr (xs ! Suc i)"
  using py_nth_nat [of "Suc i" xs] by (simp add: add.commute)

lemma add_axle_bracket:
  assumes len: "length girder = length x_g" and k: "Suc k < length x_g"
    and range: "x_g ! 0 \<le> x" "x \<le> last x_g"
    and idx: "bracket_index x_g girder x = int k"
    and width: "x_g ! Suc k - x_g ! k \<noteq> 0"
  shows "add_axle x_g girder h it x load_val =
     bind_res (history_add h (girder ! k) it
                 (load_val * (1 - interpolation_fraction x (x_g ! k) (x_g ! Suc k))))
       (\<lambda>h1. history_add h1 (girder ! Suc k) it
                 (load_val * interpolation_fraction x (x_g ! k) (x_g ! Suc k)))"
proof -
  have ne: "x_g \<noteq> []" using k by auto
  have k': "k < length x_g" using k by simp
  show ?thesis
    using range width
    by (simp add: add_axle_def py_nth_0 [OF ne] py_nth_last [OF ne] idx Let_def
        py_nth_nat k' py_nth_Suc k len)
qed

lemma bracket_index_inside:
  assumes "sorted_wrt (<) x_g" "length girder = length x_g" "Suc k < length x_g"
    "x_g ! k < x" "x \<le> x_g ! Suc k"
  shows "bracket_index x_g girder x = int k"
  using assms searchsorted_bracket [OF assms(1,3,4,5)]
  by (simp add: bracket_index_def clip_def Let_def)

lemma bracket_index_first:
  assumes "sorted_wrt (<) x_g" "length girder = length x_g" "2 \<le> length x_g"
  shows "bracket_index x_g girder (x_g ! 0) = 0"
proof -
  have "searchsorted x_g (x_g ! 0) = 0"
    using assms by (intro searchsorted_node) auto
  then show ?thesis using assms by (simp add: bracket_index_def clip_def Let_def)
qed

lemma bracket_index_range:
  assumes "length girder = length x_g" "2 \<le> length x_g"
  shows "0 \<le> bracket_index x_g girder x \<and> bracket_index x_g girder x \<le> int (length x_g) - 2"
  using assms by (simp add: bracket_index_def clip_def Let_def)


lemma strict_sorted_first_le:
  assumes "sorted_wrt (<) (a :: real list)" "k < length a"
  shows "a ! 0 \<le> a ! k"
proof (cases k)
  case 0 then show ?thesis by simp
next
  case (Suc j)
  then have "0 < k" by simp
  then have "a ! 0 < a ! k" using assms(2) by (rule sorted_wrt_nth_less [OF assms(1)])
  then show ?thesis by simp
qed

lemma strict_sorted_le_last:
  assumes "sorted_wrt (<) (a :: real list)" "k < length a"
  shows "a ! k \<le> last a"
proof -
  have ne: "a \<noteq> []" using assms(2) by auto
  show ?thesis
  proof (cases "k = length a - 1")
    case True
    then show ?thesis by (simp add: last_conv_nth [OF ne])
  next
    case False
    then have "k < length a - 1" "length a - 1 < length a" using assms(2) by arith+
    then have "a ! k < a ! (length a - 1)" by (rule sorted_wrt_nth_less [OF assms(1)])
    then show ?thesis by (simp add: last_conv_nth [OF ne])
  qed
qed

lemma add_axle_effect:
  assumes len: "length girder = length x_g" and k: "Suc k < length x_g"
    and range: "x_g ! 0 \<le> x" "x \<le> last x_g"
    and idx: "bracket_index x_g girder x = int k"
    and width: "x_g ! Suc k - x_g ! k \<noteq> 0"
    and cov: "history_covers h girder n" "it < n"
  shows "\<exists>h'. add_axle x_g girder h it x load_val = Inr h'
     \<and> (\<forall>nd it'. history_at h' nd it' = history_at h nd it'
           + (if nd = girder ! k \<and> it' = it
              then load_val * (1 - interpolation_fraction x (x_g ! k) (x_g ! Suc k)) else 0)
           + (if nd = girder ! Suc k \<and> it' = it
              then load_val * interpolation_fraction x (x_g ! k) (x_g ! Suc k) else 0))"
proof -
  from history_covers_lookup [OF cov(1), of k] len k obtain va where
    va: "map_of h (girder ! k) = Some va" "length va = n" by auto
  from history_covers_lookup [OF cov(1), of "Suc k"] len k obtain vb where
    vb: "map_of h (girder ! Suc k) = Some vb" "length vb = n" by auto
  have ia: "it < length va" and ib: "it < length vb" using va vb cov(2) by simp_all
  show ?thesis
    unfolding add_axle_bracket [OF len k range idx width]
    by (rule two_adds [OF va(1) ia vb(1) ib])
qed

lemma strict_sorted_Suc:
  assumes "sorted_wrt (<) (a :: real list)" "Suc k < length a"
  shows "a ! k < a ! Suc k"
  using assms by (simp add: sorted_wrt_nth_less)

lemma interpolation_fraction_left: "interpolation_fraction xi xi xj = 0"
  by (simp add: interpolation_fraction_def)

lemma interpolation_fraction_right: "xj - xi \<noteq> 0 \<Longrightarrow> interpolation_fraction xj xi xj = 1"
  by (simp add: interpolation_fraction_def)

lemma axle_on_node_effect:
  assumes srt: "sorted_wrt (<) x_g" and len: "length girder = length x_g"
    and two: "2 \<le> length x_g" and cov: "history_covers h girder n" "it < n"
    and k: "k < length x_g"
  shows "\<exists>h'. add_axle x_g girder h it (x_g ! k) load_val = Inr h'
     \<and> (\<forall>nd it'. history_at h' nd it' = history_at h nd it'
           + (if nd = girder ! k \<and> it' = it then load_val else 0))"
proof (cases k)
  case 0
  have one: "Suc 0 < length x_g" using two by simp
  have w: "x_g ! Suc 0 - x_g ! 0 \<noteq> 0" using strict_sorted_Suc [OF srt one] by simp
  have pos: "0 < length x_g" using one by arith
  have hi: "x_g ! 0 \<le> last x_g" by (rule strict_sorted_le_last [OF srt pos])
  have idx: "bracket_index x_g girder (x_g ! 0) = int 0"
    using bracket_index_first [OF srt len two] by simp
  have eff: "\<exists>h'. add_axle x_g girder h it (x_g ! 0) load_val = Inr h'
     \<and> (\<forall>nd it'. history_at h' nd it' = history_at h nd it'
           + (if nd = girder ! 0 \<and> it' = it then load_val * (1 - 0) else 0)
           + (if nd = girder ! Suc 0 \<and> it' = it then load_val * 0 else 0))"
    using add_axle_effect [OF len one _ hi idx w cov, of load_val]
    unfolding interpolation_fraction_left by simp
  then obtain h' where h': "add_axle x_g girder h it (x_g ! 0) load_val = Inr h'"
    "\<And>nd it'. history_at h' nd it' = history_at h nd it'
           + (if nd = girder ! 0 \<and> it' = it then load_val * (1 - 0) else 0)
           + (if nd = girder ! Suc 0 \<and> it' = it then load_val * 0 else 0)"
    by blast
  show ?thesis unfolding 0 by (rule exI [of _ h']) (simp add: h')
next
  case (Suc j)
  have sj: "Suc j < length x_g" using k Suc by simp
  have lt: "x_g ! j < x_g ! Suc j" by (rule strict_sorted_Suc [OF srt sj])
  have w: "x_g ! Suc j - x_g ! j \<noteq> 0" using lt by simp
  have lo: "x_g ! 0 \<le> x_g ! Suc j" by (rule strict_sorted_first_le [OF srt sj])
  have hi: "x_g ! Suc j \<le> last x_g" by (rule strict_sorted_le_last [OF srt sj])
  have idx: "bracket_index x_g girder (x_g ! Suc j) = int j"
    by (rule bracket_index_inside [OF srt len sj lt]) simp
  have eff: "\<exists>h'. add_axle x_g girder h it (x_g ! Suc j) load_val = Inr h'
     \<and> (\<forall>nd it'. history_at h' nd it' = history_at h nd it'
           + (if nd = girder ! j \<and> it' = it then load_val * (1 - 1) else 0)
           + (if nd = girder ! Suc j \<and> it' = it then load_val * 1 else 0))"
    using add_axle_effect [OF len sj lo hi idx w cov, of load_val]
    unfolding interpolation_fraction_right [OF w] by simp
  then obtain h' where h': "add_axle x_g girder h it (x_g ! Suc j) load_val = Inr h'"
    "\<And>nd it'. history_at h' nd it' = history_at h nd it'
           + (if nd = girder ! j \<and> it' = it then load_val * (1 - 1) else 0)
           + (if nd = girder ! Suc j \<and> it' = it then load_val * 1 else 0)"
    by blast
  show ?thesis unfolding Suc by (rule exI [of _ h']) (simp add: h')
qed

lemma bracket_width_nonzero:
  assumes srt: "sorted_wrt (<) x_g" and len: "length girder = length x_g"
    and two: "2 \<le> length x_g"
  shows "x_g ! nat (bracket_index x_g girder x + 1) - x_g ! nat (bracket_index x_g girder x) \<noteq> 0"
proof -
  let ?k = "nat (bracket_index x_g girder x)"
  from bracket_index_range [OF len two, of x]
  have k: "Suc ?k < length x_g" and eq: "nat (bracket_index x_g girder x + 1) = Suc ?k"
    by auto
  show ?thesis using strict_sorted_Suc [OF srt k] by (simp add: eq)
qed

lemma add_axle_defined:
  assumes srt: "sorted_wrt (<) x_g" and len: "length girder = length x_g"
    and two: "2 \<le> length x_g" and cov: "history_covers h girder n" "it < n"
    and range: "x_g ! 0 \<le> x" "x \<le> last x_g"
  shows "\<exists>h'. add_axle x_g girder h it x load_val = Inr h'"
proof -
  let ?k = "nat (bracket_index x_g girder x)"
  from bracket_index_range [OF len two, of x]
  have k: "Suc ?k < length x_g" and idx: "bracket_index x_g girder x = int ?k"
    by auto
  have w: "x_g ! Suc ?k - x_g ! ?k \<noteq> 0" using strict_sorted_Suc [OF srt k] by simp
  from add_axle_effect [OF len k range idx w cov, of load_val] show ?thesis by blast
qed

text \<open>
  C5. On a line of at least two nodes with strictly ascending coordinates, an axle
  exactly at the coordinate of node \<open>k\<close> (an interior node or either end) adds the
  whole axle load to the history of node \<open>k\<close> and nothing to any other node, so the
  other node of the bracketing pair has weight 0. For every position within
  \<open>[x_g[0], x_g[-1]]\<close> the clamped bracket index selects a pair of nodes whose width
  \<open>xj - xi\<close> is not zero, and the update returns a history: the division is defined.
\<close>

theorem axle_on_node:
  assumes "sorted_wrt (<) x_g" "length girder = length x_g" "2 \<le> length x_g"
    and "history_covers h girder n" "it < n"
  shows "(k < length x_g \<longrightarrow>
           (\<exists>h'. add_axle x_g girder h it (x_g ! k) load_val = Inr h'
              \<and> (\<forall>nd it'. history_at h' nd it' = history_at h nd it'
                    + (if nd = girder ! k \<and> it' = it then load_val else 0))))
     \<and> (x_g ! 0 \<le> x \<and> x \<le> last x_g \<longrightarrow>
           x_g ! nat (bracket_index x_g girder x + 1) - x_g ! nat (bracket_index x_g girder x) \<noteq> 0
           \<and> (\<exists>h'. add_axle x_g girder h it x load_val = Inr h'))"
  using axle_on_node_effect [OF assms, of k load_val]
    bracket_width_nonzero [OF assms(1,2,3), of x]
    add_axle_defined [OF assms, of x load_val]
  by blast


lemma demo_sorted: "sorted_wrt (<) demo_x" by (simp add: demo_x_def)
lemma demo_len: "length demo_tags = length demo_x"  by (simp add: demo_x_def demo_tags_def)
lemma demo_cov: "history_covers (history_init demo_tags 2) demo_tags 2"
  by (simp add: history_covers_def history_init_def demo_tags_def)

text \<open>An axle of 100 N exactly on the interior node 3002 and a position on the far end.\<close>

theorem axle_on_node_witness:
  "(\<exists>h'. add_axle demo_x demo_tags (history_init demo_tags 2) 0 200 100 = Inr h'
      \<and> history_at h' 3001 0 = 0 \<and> history_at h' 3002 0 = 100 \<and> history_at h' 3003 0 = 0)
   \<and> demo_x ! nat (bracket_index demo_x demo_tags 400 + 1)
        - demo_x ! nat (bracket_index demo_x demo_tags 400) \<noteq> 0"
proof -
  have 1: "2 \<le> length demo_x" by (simp add: demo_x_def)
  have 2: "(0::nat) < 2" by simp
  have 3: "Suc 0 < length demo_x" by (simp add: demo_x_def)
  have 4: "demo_x ! 0 \<le> 400 \<and> 400 \<le> last demo_x" by (simp add: demo_x_def)
  from axle_on_node [OF demo_sorted demo_len 1 demo_cov 2, of "Suc 0" 100 400] 3 4
  obtain h' where h: "add_axle demo_x demo_tags (history_init demo_tags 2) 0 (demo_x ! Suc 0) 100 = Inr h'"
     "\<forall>nd it'. history_at h' nd it' = history_at (history_init demo_tags 2) nd it'
                + (if nd = demo_tags ! Suc 0 \<and> it' = 0 then 100 else 0)"
    and w: "demo_x ! nat (bracket_index demo_x demo_tags 400 + 1)
        - demo_x ! nat (bracket_index demo_x demo_tags 400) \<noteq> 0"
    by blast
  have z: "history_at (history_init demo_tags 2) nd 0 = 0" for nd
    by (simp add: history_at_def history_init_def demo_tags_def)
  have x1: "demo_x ! Suc 0 = 200" by (simp add: demo_x_def)
  have "\<exists>h'. add_axle demo_x demo_tags (history_init demo_tags 2) 0 200 100 = Inr h'
      \<and> history_at h' 3001 0 = 0 \<and> history_at h' 3002 0 = 100 \<and> history_at h' 3003 0 = 0"
    using h(1) h(2) [rule_format, of 3001 0] h(2) [rule_format, of 3002 0] h(2) [rule_format, of 3003 0]
    by (simp add: z [unfolded demo_tags_def] x1 demo_tags_def)
  then show ?thesis using w by blast
qed

lemma allclose_zero: "allclose vals 0 = list_all (\<lambda>v. \<bar>v\<bar> \<le> 1 / 10 ^ 8) vals"
  by (simp add: allclose_def)

lemma commands_of_node_other:
  "nd \<notin> fst ` set history_dict \<Longrightarrow>
     commands_of_node gid nd (create_pathseries_from_history dt history_dict gid) = []"
  by (induction dt history_dict gid rule: create_pathseries_from_history.induct)
     (auto simp: commands_of_node_def command_node_def Let_def)

text \<open>
  C6 (as the code has it). Of the commands that \<^verbatim>\<open>create_pathseries_from_history\<close> sends
  for a history dict, those that concern node \<open>nd\<close> are its Path time series, its plain
  pattern and its load, in this order, when some sample of the history of \<open>nd\<close> is
  larger than \<open>1e-8\<close> in absolute value, the tolerance of \<^verbatim>\<open>np.allclose(values, 0.0)\<close>;
  otherwise there is none. A history that is exactly zero throughout is therefore
  pruned, and a node without a history gets nothing.
\<close>

theorem pathseries_submitted_iff:
  "distinct (map fst history_dict) \<Longrightarrow>
     commands_of_node gid nd (create_pathseries_from_history dt history_dict gid) =
       (case map_of history_dict nd of
          None \<Rightarrow> []
        | Some vals \<Rightarrow>
            if list_all (\<lambda>v. \<bar>v\<bar> \<le> 1 / 10 ^ 8) vals then []
            else [TimeSeriesPath (1000 * gid + nd) dt vals 1,
                  PatternPlain (2000 * gid + nd) (1000 * gid + nd),
                  Load nd [0, 0, - 1, 0, 0, 0]])"
proof (induction dt history_dict gid rule: create_pathseries_from_history.induct)
  case (1 dt gid)
  show ?case by (simp add: commands_of_node_def)
next
  case (2 dt nd' vals history_dict gid)
  have notin: "nd' \<notin> fst ` set history_dict" using "2.prems" by simp
  have rest: "nd = nd' \<Longrightarrow>
      commands_of_node gid nd (create_pathseries_from_history dt history_dict gid) = []"
    using commands_of_node_other notin by blast
  have d: "distinct (map fst history_dict)" using "2.prems" by simp
  show ?case
  proof (cases "allclose vals 0")
    case True
    then show ?thesis
      using "2.IH"(1) [OF True d] rest by (auto simp: allclose_zero)
  next
    case False
    have "commands_of_node gid nd (create_pathseries_from_history dt ((nd', vals) # history_dict) gid)
            = (if nd = nd' then [TimeSeriesPath (1000 * gid + nd) dt vals 1,
                                 PatternPlain (2000 * gid + nd) (1000 * gid + nd),
                                 Load nd [0, 0, - 1, 0, 0, 0]] else [])
              @ commands_of_node gid nd (create_pathseries_from_history dt history_dict gid)"
      using False by (auto simp: commands_of_node_def command_node_def Let_def)
    then show ?thesis
      using "2.IH"(2) [OF False refl refl d] rest False by (auto simp: allclose_zero)
  qed
qed

text \<open>Two nodes of girder 3, the first with a zero history, the second loaded at step 1.\<close>

theorem pathseries_submitted_iff_witness:
  "commands_of_node 3 3002 (create_pathseries_from_history (1 / 10) [(3001, [0, 0]), (3002, [0, 5])] 3)
     = [TimeSeriesPath 6002 (1 / 10) [0, 5] 1, PatternPlain 9002 6002, Load 3002 [0, 0, - 1, 0, 0, 0]]
   \<and> commands_of_node 3 3001 (create_pathseries_from_history (1 / 10) [(3001, [0, 0]), (3002, [0, 5])] 3)
     = []"
  using pathseries_submitted_iff [of "[(3001, [0, 0]), (3002, [0, 5])]" 3 3002 "1 / 10"]
    pathseries_submitted_iff [of "[(3001, [0, 0]), (3002, [0, 5])]" 3 3001 "1 / 10"]
  by simp

text \<open>
  C6 (as the specification has it) fails on a history with the nonzero sample \<open>1e-9\<close>:
  it is not identically zero, and all the same no command at all is sent for it.
\<close>

theorem pathseries_tiny_sample_counterexample:
  "(1 / 10 ^ 9 :: real) \<noteq> 0 \<and>
   create_pathseries_from_history (1 / 10) [(3001, [0, 1 / 10 ^ 9, 0])] 3 = []"
  by (simp add: allclose_def)


lemma sqrt_sum_nonzero:
  assumes "0 \<le> a" "0 \<le> b" "0 < a + b"
  shows "sqrt a + sqrt b \<noteq> 0"
proof -
  have "0 < a \<or> 0 < b" using assms by arith
  then have "0 < sqrt a \<or> 0 < sqrt b" by simp
  moreover have "0 \<le> sqrt a" "0 \<le> sqrt b" using assms by simp_all
  ultimately show ?thesis by arith
qed

lemma rayleigh_selected:
  assumes "eigen \<noteq> []"
    and "k = (if 3 \<le> length eigen then 2 else length eigen - 1)"
  shows "rayleigh_coefficients eigen z =
           Inr (np_div (np_mul (Finite z)
                          (np_mul (np_mul (Finite 2) (as_npfloat (np_sqrt (eigen ! 0))))
                             (as_npfloat (np_sqrt (eigen ! k)))))
                  (np_add (as_npfloat (np_sqrt (eigen ! 0))) (as_npfloat (np_sqrt (eigen ! k)))),
                np_div (Finite (2 * z))
                  (np_add (as_npfloat (np_sqrt (eigen ! 0))) (as_npfloat (np_sqrt (eigen ! k)))))"
proof -
  have k: "k < length eigen" using assms by (cases eigen) auto
  have idx: "min 2 (int (length eigen) - 1) = int k"
    using assms by (cases eigen) auto
  have n0: "py_nth (map (\<lambda>e. as_npfloat (np_sqrt e)) eigen) 0 = Inr (as_npfloat (np_sqrt (eigen ! 0)))"
    using assms(1) by (simp add: py_nth_def)
  have nk: "py_nth (map (\<lambda>e. as_npfloat (np_sqrt e)) eigen) (int k) = Inr (as_npfloat (np_sqrt (eigen ! k)))"
    using k by (simp add: py_nth_def)
  show ?thesis
    by (simp add: rayleigh_coefficients_def Let_def idx n0 nk)
qed

lemma rayleigh_command_value:
  "rayleigh_command eigen zeta =
     (if eigen = [] then Inl IndexError
      else
        (let l1 = eigen ! 0;
             l2 = eigen ! (if 3 \<le> length eigen then 2 else length eigen - 1)
         in Inr (Rayleigh
                   (if l1 < 0 \<or> l2 < 0 \<or> (l1 = 0 \<and> l2 = 0) then NaN
                    else Finite (zeta * (2 * sqrt l1 * sqrt l2) / (sqrt l1 + sqrt l2)))
                   0 0
                   (if l1 < 0 \<or> l2 < 0 then NaN
                    else if l1 = 0 \<and> l2 = 0
                         then (if zeta = 0 then NaN else if 0 < zeta then PosInf else NegInf)
                    else Finite (2 * zeta / (sqrt l1 + sqrt l2))))))"
proof (cases "eigen = []")
  case True
  then show ?thesis
    by (simp add: rayleigh_command_def rayleigh_coefficients_def py_nth_def)
next
  case False
  define k where "k = (if 3 \<le> length eigen then 2 else length eigen - 1)"
  define l1 where "l1 = eigen ! 0"
  define l2 where "l2 = eigen ! k"
  note sel = rayleigh_selected [OF False k_def, of zeta, folded l1_def l2_def]
  consider (neg) "l1 < 0 \<or> l2 < 0" | (zero) "l1 = 0" "l2 = 0"
    | (pos) "0 \<le> l1" "0 \<le> l2" "0 < l1 + l2"
    by arith
  then have "rayleigh_command eigen zeta =
      Inr (Rayleigh
             (if l1 < 0 \<or> l2 < 0 \<or> (l1 = 0 \<and> l2 = 0) then NaN
              else Finite (zeta * (2 * sqrt l1 * sqrt l2) / (sqrt l1 + sqrt l2)))
             0 0
             (if l1 < 0 \<or> l2 < 0 then NaN
              else if l1 = 0 \<and> l2 = 0
                   then (if zeta = 0 then NaN else if 0 < zeta then PosInf else NegInf)
              else Finite (2 * zeta / (sqrt l1 + sqrt l2))))"
  proof cases
    case neg
    then show ?thesis
      by (auto simp: rayleigh_command_def sel np_sqrt_def as_npfloat_def)
  next
    case zero
    then show ?thesis
      by (simp add: rayleigh_command_def sel np_sqrt_def as_npfloat_def)
  next
    case pos
    have nz: "sqrt l1 + sqrt l2 \<noteq> 0" by (rule sqrt_sum_nonzero [OF pos])
    have "\<not> (l1 = 0 \<and> l2 = 0)" using pos by simp
    then show ?thesis
      using pos nz by (simp add: rayleigh_command_def sel np_sqrt_def as_npfloat_def)
  qed
  then show ?thesis
    using False by (simp add: Let_def l1_def l2_def k_def)
qed

section \<open>Properties of binary64 rounding\<close>


lemma pow2_powr: "pow2 e = 2 powr (of_int e)"
  by (simp add: pow2_def powr_int)

lemma pow2_pos [simp]: "0 < pow2 e"
  by (simp add: pow2_powr)

lemma pow2_nonneg [simp]: "0 \<le> pow2 e"
  by (simp add: pow2_powr)

lemma pow2_nonzero [simp]: "pow2 e \<noteq> 0"
  using pow2_pos [of e] by linarith




lemma pow2_0 [simp]: "pow2 0 = 1"
  by (simp add: pow2_def)






























lemma f64_round_0 [simp]: "f64_round 0 = 0"
  by (simp add: f64_round_def Let_def round_half_even_def)

























section \<open>Properties of the model builder\<close>

lemma bind_res_Inr_iff: "bind_res m f = Inr y \<longleftrightarrow> (\<exists>x. m = Inr x \<and> f x = Inr y)"
  by (cases m) simp_all

lemma not_Inr_is_Inl: "(\<And>y. r \<noteq> Inr y) \<Longrightarrow> \<exists>e. r = Inl e"
  by (cases r) auto

lemma load_global_unbound:
  "load_global ''yt3'' = Inl (NameError ''yt3'')"
  "load_global ''Ep'' = Inl (NameError ''Ep'')"
  "load_global ''number_tendon'' = Inl (NameError ''number_tendon'')"
  "load_global ''z_coef_list'' = Inl (NameError ''z_coef_list'')"
  "load_global ''y_coef_list'' = Inl (NameError ''y_coef_list'')"
  "load_global ''girder1'' = Inl (NameError ''girder1'')"
  "load_global ''girder_H'' = Inl (NameError ''girder_H'')"
  "load_global ''girder_spacing'' = Inl (NameError ''girder_spacing'')"
  by (simp_all add: load_global_def builder_globals_def)

lemma Analysis_girder_raises:
  "Analysis_girder rt self domain_tags i Ec Pe spacing =
     (case girder_params rt (an_params self) of Inl e \<Rightarrow> Inl e | Inr ga \<Rightarrow> Inl (NameError ''yt3''))"
  by (simp add: Analysis_girder_def Let_def load_global_unbound split: sum.splits)

lemma girder_step_raises: "\<exists>e. girder_step rt B E PE cs i st = Inl e"
  by (rule not_Inr_is_Inl)
     (simp add: girder_step_def bind_res_Inr_iff Analysis_girder_raises split: sum.splits)

lemma fold_res_first_raises:
  assumes "xs \<noteq> []" "\<And>x s. \<exists>e. f x s = Inl e"
  shows "\<exists>e. fold_res f xs s = Inl e"
proof (cases xs)
  case Nil then show ?thesis using assms(1) by simp
next
  case (Cons x rest)
  from assms(2) [of x s] obtain e where "f x s = Inl e" by blast
  then show ?thesis using Cons by simp
qed

lemma py_range_empty: "b \<le> a \<Longrightarrow> py_range a b = []"
  by (simp add: py_range_def)

lemma py_range_nonempty: "a < b \<Longrightarrow> py_range a b \<noteq> []"
  by (simp add: py_range_def)

lemma build_girders_raises:
  assumes "1 \<le> ba_girder_number a"
  shows "\<exists>e. build_girders rt p a = Inl e"
proof -
  have ne: "py_range 1 (ba_girder_number a + 1) \<noteq> []"
    using assms by (intro py_range_nonempty) simp
  show ?thesis
    unfolding build_girders_def Let_def
    by (rule fold_res_first_raises [OF ne]) (rule girder_step_raises)
qed

lemma build_girders_none:
  assumes "\<not> 1 \<le> ba_girder_number a"
  shows "build_girders rt p a = Inr ([], [])"
proof -
  have "py_range 1 (ba_girder_number a + 1) = []"
    using assms by (intro py_range_empty) simp
  then show ?thesis by (simp add: build_girders_def Let_def)
qed

lemma build_rest_none:
  assumes "\<not> 1 \<le> ba_girder_number a"
  shows "build_rest p a [] = Inl IndexError"
proof -
  have e: "py_range 1 (ba_girder_number a + 1) = []"
    using assms by (intro py_range_empty) simp
  have "py_nth (transpose ([] :: int list list)) 0 = Inl IndexError"
    by (simp add: py_nth_def)
  then show ?thesis by (simp add: build_rest_def Let_def e)
qed

lemma build_never_returns: "\<exists>e. build_bridge_model env p = Inl e"
proof (cases "env_ops_loaded env")
  case False
  then show ?thesis by (simp add: build_bridge_model_def)
next
  case True
  show ?thesis
  proof (cases "unpack_params (env_runtime env) p")
    case (Inl e)
    then show ?thesis using True by (simp add: build_bridge_model_def Let_def)
  next
    case (Inr a)
    show ?thesis
    proof (cases "1 \<le> ba_girder_number a")
      case ge: True
      from build_girders_raises [OF ge, of "env_runtime env" p]
      obtain e where "build_girders (env_runtime env) p a = Inl e" by blast
      then show ?thesis using True Inr by (simp add: build_bridge_model_def Let_def)
    next
      case False
      then show ?thesis using True Inr
        by (simp add: build_bridge_model_def Let_def build_girders_none build_rest_none)
    qed
  qed
qed







lemma baseline_lookups:
  "\<exists>P. make_params rt ''baseline'' = Inr P
     \<and> map_of P ''Bridge_width'' = Some (PNum (125 / 10))
     \<and> map_of P ''Bridge_skew'' = Some (PNum 36)
     \<and> map_of P ''girder_number'' = Some (PNum 6)
     \<and> map_of P ''girder_length'' = Some (PNum 29600)
     \<and> map_of P ''girder_spacing'' = Some (PList [PNum (208 / 100)])"
proof -
  have b: "map_of get_default_base_params ''Bridge_width'' = Some (PNum (125 / 10))"
    "map_of get_default_base_params ''Bridge_skew'' = Some (PNum 36)"
    "map_of get_default_base_params ''girder_length'' = Some (PNum 29600)"
    "map_of get_default_base_params ''girder_spacing'' = Some (PList [PNum (208 / 100)])"
    by (simp_all add: get_default_base_params_def DEFAULT_BASE_PARAMS_def)
  show ?thesis by (simp add: cfg_simps b)
qed

lemma unpack_list_spacing:
  assumes "map_of P ''Bridge_width'' = Some (PNum w)" "map_of P ''Bridge_skew'' = Some (PNum k)"
    and "map_of P ''girder_number'' = Some (PNum n)" "map_of P ''girder_length'' = Some (PNum l)"
    and "map_of P ''girder_spacing'' = Some (PList xs)"
  shows "unpack_params rt P = Inl TypeError"
  by (simp add: unpack_params_def dict_item_def dict_get_default_def assms)

lemma baseline_build_raises:
  "bind_res (make_params plain_runtime ''baseline'') (build_bridge_model demo_env) = Inl TypeError"
proof -
  from baseline_lookups [of plain_runtime] obtain P where
    P: "make_params plain_runtime ''baseline'' = Inr P"
      "map_of P ''Bridge_width'' = Some (PNum (125 / 10))"
      "map_of P ''Bridge_skew'' = Some (PNum 36)"
      "map_of P ''girder_number'' = Some (PNum 6)"
      "map_of P ''girder_length'' = Some (PNum 29600)"
      "map_of P ''girder_spacing'' = Some (PList [PNum (208 / 100)])"
    by blast
  show ?thesis
    by (simp add: P(1) build_bridge_model_def demo_env_def Let_def unpack_list_spacing [OF P(2-6)])
qed




text \<open>
  C3. \<^verbatim>\<open>run_modal\<close> never returns deflections: for every environment, solver and
  argument it raises inside \<^verbatim>\<open>build_bridge_model\<close> (or before), and on the dict of
  \<^verbatim>\<open>make_params("baseline")\<close> with the default nodes, as \<^verbatim>\<open>scripts/run_modal.py\<close> calls it,
  the exception is the \<^verbatim>\<open>TypeError\<close> of \<^verbatim>\<open>float(p['girder_spacing'])\<close>.
\<close>

theorem run_modal_raises:
  "(\<exists>e. run_modal env sv params check_nodes load_nodes point_load_n num_eigen = Inl e)
   \<and> bind_res (make_params plain_runtime ''baseline'')
        (\<lambda>params. run_modal demo_env sv params [1075, 2075, 3075, 4075, 5075, 6075]
                     (3075, 4075) None None) = Inl TypeError"
proof -
  from build_never_returns [of env params] obtain e where
    e: "build_bridge_model env params = Inl e" by blast
  have 1: "\<exists>e. run_modal env sv params check_nodes load_nodes point_load_n num_eigen = Inl e"
    by (simp add: run_modal_def e)
  from baseline_lookups [of plain_runtime] obtain P where
    P: "make_params plain_runtime ''baseline'' = Inr P"
    by blast
  have "build_bridge_model demo_env P = Inl TypeError"
    using baseline_build_raises by (simp add: P)
  then have 2: "bind_res (make_params plain_runtime ''baseline'')
        (\<lambda>params. run_modal demo_env sv params [1075, 2075, 3075, 4075, 5075, 6075]
                     (3075, 4075) None None) = Inl TypeError"
    by (simp add: P run_modal_def demo_env_def)
  show ?thesis using 1 2 by blast
qed

lemma run_moving_load_raises:
  "\<exists>e. run_moving_load env sv params vehicle_loads_n vehicle_distances_mm = Inl e"
proof -
  from build_never_returns [of env params] obtain e where
    e: "build_bridge_model env params = Inl e" by blast
  show ?thesis by (simp add: run_moving_load_def Let_def e)
qed

lemma run_moving_load_baseline:
  "bind_res (make_params plain_runtime ''baseline'')
     (\<lambda>params. run_moving_load demo_env sv params vehicle_loads_n vehicle_distances_mm)
   = Inl TypeError"
proof -
  from baseline_lookups [of plain_runtime] obtain P where
    P: "make_params plain_runtime ''baseline'' = Inr P"
    by blast
  have "build_bridge_model demo_env P = Inl TypeError"
    using baseline_build_raises by (simp add: P)
  then show ?thesis
    by (simp add: P run_moving_load_def demo_env_def Let_def)
qed

text \<open>
  C7. \<^verbatim>\<open>run_moving_load\<close> never installs the Rayleigh damping: for every environment,
  solver and argument it raises inside \<^verbatim>\<open>build_bridge_model\<close> (or before), which precedes
  \<^verbatim>\<open>ops.eigen\<close> and the damping block, and on the dict of \<^verbatim>\<open>make_params("baseline")\<close> with
  the default truck the exception is the \<^verbatim>\<open>TypeError\<close> of \<^verbatim>\<open>float(p['girder_spacing'])\<close>.
  The damping block on its own does what is intended of it: from a non-empty list of
  eigenvalues it takes the first and the third (the last one of fewer than three) and
  sends \<^verbatim>\<open>rayleigh(alphaM, 0, 0, betaK)\<close> with
  \<open>alphaM = zeta * 2 * omega1 * omega2 / (omega1 + omega2)\<close> and
  \<open>betaK = 2 * zeta / (omega1 + omega2)\<close>, both 0 for \<open>zeta = 0\<close>, when the two
  eigenvalues are non-negative and not both zero; a negative one makes both
  coefficients \<^verbatim>\<open>nan\<close>, two zeros make them \<^verbatim>\<open>nan\<close> and \<^verbatim>\<open>inf\<close> or \<^verbatim>\<open>nan\<close>, and an empty
  list raises.
\<close>

theorem rayleigh_never_installed:
  "(\<exists>e. run_moving_load env sv params vehicle_loads_n vehicle_distances_mm = Inl e)
   \<and> bind_res (make_params plain_runtime ''baseline'')
        (\<lambda>params. run_moving_load demo_env sv params
                     [30650, 57350, 55410, 30650, 57350, 55410]
                     [0, 3300, 4600, 0, 3300, 4600]) = Inl TypeError
   \<and> rayleigh_command eigen zeta =
       (if eigen = [] then Inl IndexError
        else
          (let l1 = eigen ! 0;
               l2 = eigen ! (if 3 \<le> length eigen then 2 else length eigen - 1)
           in Inr (Rayleigh
                     (if l1 < 0 \<or> l2 < 0 \<or> (l1 = 0 \<and> l2 = 0) then NaN
                      else Finite (zeta * (2 * sqrt l1 * sqrt l2) / (sqrt l1 + sqrt l2)))
                     0 0
                     (if l1 < 0 \<or> l2 < 0 then NaN
                      else if l1 = 0 \<and> l2 = 0
                           then (if zeta = 0 then NaN else if 0 < zeta then PosInf else NegInf)
                      else Finite (2 * zeta / (sqrt l1 + sqrt l2))))))"
  using run_moving_load_raises [of env sv params vehicle_loads_n vehicle_distances_mm]
    run_moving_load_baseline [of sv] rayleigh_command_value [of eigen zeta]
  by blast

text \<open>
  Eigenvalues 1, 4, 4, 9 with \<open>zeta = 0.015\<close> give \<open>omega1 = 1\<close> and \<open>omega2 = 2\<close>; a
  single eigenvalue serves as both; three zero eigenvalues with \<open>zeta = 0\<close> give \<^verbatim>\<open>nan\<close>.
\<close>

theorem rayleigh_never_installed_witness:
  "rayleigh_command [1, 4, 4, 9] (15 / 1000) =
     Inr (Rayleigh (Finite (15 / 1000 * (2 * 1 * 2) / 3)) 0 0 (Finite (2 * (15 / 1000) / 3)))
   \<and> rayleigh_command [1, 4, 4, 9] 0 = Inr (Rayleigh (Finite 0) 0 0 (Finite 0))
   \<and> rayleigh_command [4] (15 / 1000) =
     Inr (Rayleigh (Finite (15 / 1000 * (2 * 2 * 2) / 4)) 0 0 (Finite (2 * (15 / 1000) / 4)))
   \<and> rayleigh_command [0, 0, 0] 0 = Inr (Rayleigh NaN 0 0 NaN)
   \<and> rayleigh_command [] 0 = Inl IndexError"
  using rayleigh_never_installed [where eigen = "[1, 4, 4, 9]" and zeta = "15 / 1000", THEN conjunct2, THEN conjunct2]
    rayleigh_never_installed [where eigen = "[1, 4, 4, 9]" and zeta = 0, THEN conjunct2, THEN conjunct2]
    rayleigh_never_installed [where eigen = "[4]" and zeta = "15 / 1000", THEN conjunct2, THEN conjunct2]
    rayleigh_never_installed [where eigen = "[0, 0, 0]" and zeta = 0, THEN conjunct2, THEN conjunct2]
    rayleigh_never_installed [where eigen = "[]" and zeta = 0, THEN conjunct2, THEN conjunct2]
  by simp

lemma length_py_range: "length (py_range a b) = nat (b - a)"
  by (simp add: py_range_def)

lemma set_py_range: "set (py_range a b) = {a ..< b}"
proof -
  have "(\<lambda>k. a + int k) ` {0 ..< nat (b - a)} = {a ..< b}"
  proof (intro set_eqI iffI)
    fix x assume "x \<in> (\<lambda>k. a + int k) ` {0 ..< nat (b - a)}"
    then show "x \<in> {a ..< b}" by auto
  next
    fix x assume x: "x \<in> {a ..< b}"
    then have "x = a + int (nat (x - a))" "nat (x - a) \<in> {0 ..< nat (b - a)}" by auto
    then show "x \<in> (\<lambda>k. a + int k) ` {0 ..< nat (b - a)}" by (rule image_eqI)
  qed
  then show ?thesis by (simp add: py_range_def)
qed

lemma distinct_py_range: "distinct (py_range a b)"
  by (simp add: py_range_def distinct_map inj_on_def)

lemma map_res_map:
  assumes "\<And>x. x \<in> set xs \<Longrightarrow> f x = Inr (g x)"
  shows "map_res f xs = Inr (map g xs)"
  using assms by (induction xs) simp_all

lemma girder_mass_all_shape:
  assumes "0 < n"
  shows "girder_mass_all (replicate n h) (replicate n h) =
           Inr (map (\<lambda>j. (if j = n - 1 then 0 else h) + (if j = 0 then 0 else h)) [0 ..< n])"
proof -
  have b: "py_set_nth (replicate n h) (- 1) 0 = Inr ((replicate n h)[n - 1 := 0])"
    using assms by (simp add: py_set_nth_def nat_diff_distrib') 
  have a: "py_set_nth (replicate n h) 0 0 = Inr ((replicate n h)[0 := 0])"
    using assms by (simp add: py_set_nth_def)
  have "map (\<lambda>ba. fst ba + snd ba) (zip ((replicate n h)[n - 1 := 0]) ((replicate n h)[0 := 0]))
          = map (\<lambda>j. (if j = n - 1 then 0 else h) + (if j = 0 then 0 else h)) [0 ..< n]"
    by (rule nth_equalityI) (simp_all add: nth_list_update)
  then show ?thesis by (simp add: girder_mass_all_def a b)
qed

lemma map_const_replicate: "map (\<lambda>j. c) xs = replicate (length xs) c"
  by (induction xs) simp_all

lemma girder_mass_loop_value:
  "girder_mass_loop g (int (length ms)) ms =
     Inr (map (\<lambda>j. Mass (1000 * g + int j + 1) 0 0 (ms ! j)) [0 ..< length ms])"
proof -
  have "girder_mass_loop g (int (length ms)) ms =
          Inr (map (\<lambda>j. Mass (girder_node_tag g j) 0 0 (ms ! nat j)) (py_range 0 (int (length ms))))"
    unfolding girder_mass_loop_def
    by (rule map_res_map) (auto simp: set_py_range py_nth_def)
  then show ?thesis
    by (simp add: py_range_def girder_node_tag_def comp_def)
qed

lemma girder_mass_commands_value:
  assumes "1 \<le> division_of L"
  shows "girder_mass_commands g Ag L x_loc y_loc centroid =
           Inr (map (\<lambda>j. Mass (1000 * g + int j + 1) 0 0
                          ((if j = nat (division_of L) then 0 else 25 / 10 ^ 10 * Ag * L / of_int (division_of L) / 2)
                           + (if j = 0 then 0 else 25 / 10 ^ 10 * Ag * L / of_int (division_of L) / 2)))
                  [0 ..< nat (division_of L) + 1])"
proof -
  define n where "n = nat (division_of L) + 1"
  define h where "h = 25 / 10 ^ 10 * Ag * L / of_int (division_of L) / 2"
  define ms where "ms = map (\<lambda>j. (if j = n - 1 then 0 else h) + (if j = 0 then 0 else h)) [0 ..< n]"
  have n: "nat (division_of L + 1) = n" "division_of L + 1 = int n"
    using assms by (simp_all add: n_def)
  have len: "length ms = n" by (simp add: ms_def)
  have npos: "n \<noteq> 0" by (simp add: n_def)
  have loop: "girder_node_loop g L (division_of L) x_loc y_loc centroid (25 / 10 ^ 10) (Ag * 1) =
      Inr (map (\<lambda>j. Node (girder_node_tag g j) (x_loc + L / of_int (division_of L) * of_int j)
                       y_loc (- centroid)) (py_range 0 (division_of L + 1)),
           replicate n h, replicate n h)"
    using assms npos
    by (simp add: girder_node_loop_def Let_def map_const_replicate length_py_range n h_def)
  have all: "girder_mass_all (replicate n h) (replicate n h) = Inr ms"
    unfolding ms_def by (rule girder_mass_all_shape) (simp add: n_def)
  have "girder_mass_commands g Ag L x_loc y_loc centroid = girder_mass_loop g (int (length ms)) ms"
    unfolding girder_mass_commands_def Let_def loop by (simp add: all n len)
  also have "\<dots> = Inr (map (\<lambda>j. Mass (1000 * g + int j + 1) 0 0 (ms ! j)) [0 ..< length ms])"
    by (rule girder_mass_loop_value)
  also have "map (\<lambda>j. Mass (1000 * g + int j + 1) 0 0 (ms ! j)) [0 ..< length ms] =
      map (\<lambda>j. Mass (1000 * g + int j + 1) 0 0
                 ((if j = n - 1 then 0 else h) + (if j = 0 then 0 else h))) [0 ..< n]"
    unfolding len by (rule map_cong) (simp_all add: ms_def del: upt_Suc)
  finally show ?thesis by (simp add: n_def h_def)
qed

lemma division_of_floor: "0 \<le> L \<Longrightarrow> division_of L = \<lfloor>L / 1000 * 5\<rfloor>"
  by (simp add: division_of_def trunc_def)

lemma division_positive_length: "1 \<le> division_of L \<Longrightarrow> 0 \<le> L"
  by (rule ccontr) (simp add: division_of_def trunc_def not_le ceiling_le_iff split: if_splits)

lemma division_29600: "division_of 29600 = 148"
  by (simp add: division_of_def trunc_def)

lemma division_400: "division_of 400 = 2"
  by (simp add: division_of_def trunc_def)

text \<open>
  C9 (as the code has it). On a girder line of at least one element the solver is sent
  one \<^verbatim>\<open>ops.mass\<close> command per node, in the order of the nodes, with the vertical mass
  \<open>rho * Ag * (L/division) / 2\<close> per adjacent element, where \<open>rho = 2.5e-9\<close>: the interior
  nodes receive \<open>rho * Ag * (L/division)\<close>, and each of the two end nodes, which has
  one adjacent element, receives \<open>rho * Ag * (L/division) / 2\<close>. What is set to zero is
  the share of the missing element beyond each end (\<^verbatim>\<open>mass_before[-1]\<close>,
  \<^verbatim>\<open>mass_after[0]\<close>), not the mass of the end node.
\<close>

theorem girder_lumped_masses:
  assumes "1 \<le> division_of L"
  shows "girder_mass_commands girder_number Ag L x_loc y_loc centroid =
           Inr (map (\<lambda>j. Mass (1000 * girder_number + int j + 1) 0 0
                          (if j = 0 \<or> j = nat (division_of L)
                           then 25 / 10 ^ 10 * Ag * (L / of_int (division_of L)) / 2
                           else 25 / 10 ^ 10 * Ag * (L / of_int (division_of L))))
                  [0 ..< nat (division_of L) + 1])"
proof -
  have pos: "0 < nat (division_of L)" using assms by simp
  show ?thesis
    unfolding girder_mass_commands_value [OF assms]
    by (rule arg_cong [where f = Inr], rule map_cong) (use pos in \<open>auto simp del: upt_Suc\<close>)
qed

text \<open>The default girder: \<open>Ag = 721400\<close>, \<open>L = 29600\<close>, 148 elements, 149 nodes.\<close>

theorem girder_lumped_masses_witness:
  "\<exists>cmds. girder_mass_commands 3 721400 29600 0 6240 800 = Inr cmds \<and> length cmds = 149
     \<and> cmds ! 0 = Mass 3001 0 0 (3607 / 20000) \<and> cmds ! 148 = Mass 3149 0 0 (3607 / 20000)
     \<and> cmds ! 74 = Mass 3075 0 0 (3607 / 10000)"
proof -
  have d: "1 \<le> division_of 29600" by (simp add: division_29600)
  show ?thesis
    unfolding girder_lumped_masses [OF d] division_29600
    by (simp del: upt_Suc)
qed

text \<open>
  C9 (as the specification has it) fails on a girder of two elements (\<open>L = 400\<close>): the
  two end nodes are given the mass 0.18035, not zero.
\<close>

theorem girder_end_mass_counterexample:
  "girder_mass_commands 1 721400 400 0 0 0 =
     Inr [Mass 1001 0 0 (3607 / 20000), Mass 1002 0 0 (3607 / 10000), Mass 1003 0 0 (3607 / 20000)]"
proof -
  have d: "1 \<le> division_of 400" by (simp add: division_400)
  have u: "[0 ..< nat 2 + 1] = [0, 1, 2]" by (simp add: upt_rec)
  show ?thesis
    unfolding girder_mass_commands_value [OF d] division_400 u by simp
qed

lemma py_nth_in_range:
  assumes "0 \<le> i" "i < int (length xs)"
  shows "py_nth xs i = Inr (xs ! nat i)"
  using assms by (simp add: py_nth_def)

lemma length_girder_node_tags: "length (girder_node_tags g d) = nat (d + 1)"
  by (simp add: girder_node_tags_def length_py_range)

lemma length_deck_line_tags: "length (deck_line_tags dn d s) = nat (d + 1)"
  by (simp add: deck_line_tags_def length_py_range)

lemma set_girder_node_tags:
  "set (girder_node_tags g d) = {1000 * g + 1 ..< 1000 * g + d + 2}"
proof -
  have "girder_node_tag g ` {0 ..< d + 1} = {1000 * g + 1 ..< 1000 * g + d + 2}"
  proof (intro set_eqI iffI)
    fix x assume "x \<in> girder_node_tag g ` {0 ..< d + 1}"
    then show "x \<in> {1000 * g + 1 ..< 1000 * g + d + 2}" by (auto simp: girder_node_tag_def)
  next
    fix x assume x: "x \<in> {1000 * g + 1 ..< 1000 * g + d + 2}"
    then have "x = girder_node_tag g (x - 1000 * g - 1)" "x - 1000 * g - 1 \<in> {0 ..< d + 1}"
      by (auto simp: girder_node_tag_def)
    then show "x \<in> girder_node_tag g ` {0 ..< d + 1}" by (rule image_eqI)
  qed
  then show ?thesis by (simp add: girder_node_tags_def set_py_range)
qed

lemma sorted_girder_node_tags: "sorted (girder_node_tags g d)"
  unfolding girder_node_tags_def
  by (simp add: sorted_map py_range_def sorted_wrt_iff_nth_less girder_node_tag_def)

lemma distinct_girder_node_tags: "distinct (girder_node_tags g d)"
  unfolding girder_node_tags_def
  by (simp add: distinct_map distinct_py_range inj_on_def girder_node_tag_def)

lemma girder_gid_tags_own:
  assumes "\<And>t. t \<in> set domain_tags \<Longrightarrow> t < 1000 * g + 1 \<or> 1000 * g + (d + 1) < t"
  shows "girder_gid_tags (domain_tags @ girder_node_tags g d) g (d + 1) = girder_node_tags g d"
proof -
  have 1: "filter (\<lambda>t. 1000 * g + 1 \<le> t \<and> t \<le> 1000 * g + (d + 1)) domain_tags = []"
    unfolding filter_empty_conv
  proof
    fix t assume "t \<in> set domain_tags"
    from assms [OF this] show "\<not> (1000 * g + 1 \<le> t \<and> t \<le> 1000 * g + (d + 1))" by arith
  qed
  have 2: "filter (\<lambda>t. 1000 * g + 1 \<le> t \<and> t \<le> 1000 * g + (d + 1)) (girder_node_tags g d)
             = girder_node_tags g d"
    by (rule filter_True) (auto simp: set_girder_node_tags)
  show ?thesis
    by (simp add: girder_gid_tags_def Let_def 1 2 distinct_remdups_id distinct_girder_node_tags
        sort_key_id_if_sorted sorted_girder_node_tags)
qed

lemma girder_element_loop_count:
  assumes "0 \<le> d"
  shows "\<exists>els. girder_element_loop (girder_node_tags g d) d (d + 1) = Inr els
           \<and> length els = nat d \<and> length (concat (map fst els)) = nat d"
proof -
  let ?tags = "girder_node_tags g d"
  let ?g = "\<lambda>i. ([Element (?tags ! nat i) (?tags ! nat i) (?tags ! nat (i + 1))], ?tags ! nat i)"
  have "girder_element_loop ?tags d (d + 1) = Inr (map ?g (py_range 0 d))"
    unfolding girder_element_loop_def
    by (rule map_res_map) (simp add: set_py_range py_nth_in_range length_girder_node_tags)
  moreover have "length (concat (map fst (map ?g (py_range 0 d)))) = nat d"
    by (simp add: length_concat comp_def length_py_range sum_list_triv)
  ultimately show ?thesis by (simp add: length_py_range)
qed

lemma deck_strip_loop_count:
  assumes "0 \<le> d"
  shows "\<exists>els. deck_strip_loop (deck_line_tags dn d s) (deck_line_tags dn d s') (d + 1) = Inr els
           \<and> length els = nat d"
proof -
  let ?a = "deck_line_tags dn d s" and ?b = "deck_line_tags dn d s'"
  let ?g = "\<lambda>j. ShellElement (?a ! nat (j - 1)) [?a ! nat (j - 1), ?a ! nat j, ?b ! nat j, ?b ! nat (j - 1)]"
  have "deck_strip_loop ?a ?b (d + 1) = Inr (map ?g (py_range 1 (d + 1)))"
    unfolding deck_strip_loop_def
    by (rule map_res_map) (simp add: set_py_range py_nth_in_range length_deck_line_tags)
  then show ?thesis by (simp add: length_py_range)
qed

text \<open>
  C8 (as the code has it). For every span length \<open>L\<close> in mm with at least one element,
  the division count is \<^verbatim>\<open>int(L / 1000 * 5)\<close>, the length in metres times 5 cut down to
  a whole number (not rounded to the nearest). A girder line has that many beam
  elements and one more node, tagged \<open>1000 g + 1\<close> onward, and these are the rows of its
  node array when no other node of the domain has a tag in its range; a deck or
  pavement line has the same number of nodes and a strip between two lines the same
  number of shell elements.
\<close>

theorem mesh_division_counts:
  assumes "1 \<le> division_of L"
    and "\<And>t. t \<in> set domain_tags \<Longrightarrow> t < 1000 * g + 1 \<or> 1000 * g + (division_of L + 1) < t"
  shows "division_of L = \<lfloor>L / 1000 * 5\<rfloor>
     \<and> (\<exists>nodes mb ma. girder_node_loop g L (division_of L) x_loc y_loc centroid rho Acol = Inr (nodes, mb, ma)
           \<and> length nodes = nat (division_of L) + 1
           \<and> map command_tag nodes = girder_node_tags g (division_of L)
           \<and> girder_gid_tags (domain_tags @ map command_tag nodes) g (division_of L + 1)
               = girder_node_tags g (division_of L))
     \<and> (\<exists>els. girder_element_loop (girder_node_tags g (division_of L)) (division_of L)
                 (division_of L + 1) = Inr els
           \<and> length (concat (map fst els)) = nat (division_of L))
     \<and> (\<exists>nodes. deck_line_loop dn L (division_of L) s x_off y z = Inr nodes
           \<and> length nodes = nat (division_of L) + 1)
     \<and> (\<exists>els. deck_strip_loop (deck_line_tags dn (division_of L) s)
                 (deck_line_tags dn (division_of L) s') (division_of L + 1) = Inr els
           \<and> length els = nat (division_of L))"
proof -
  let ?d = "division_of L"
  have n: "nat (?d + 1) = nat ?d + 1" and d0: "0 \<le> ?d" using assms(1) by simp_all
  have 1: "?d = \<lfloor>L / 1000 * 5\<rfloor>"
    by (rule division_of_floor [OF division_positive_length [OF assms(1)]])
  have tags: "map command_tag (map (\<lambda>j. Node (girder_node_tag g j)
                 (x_loc + L / of_int ?d * of_int j) y_loc (- centroid)) (py_range 0 (?d + 1)))
              = girder_node_tags g ?d"
    by (simp add: girder_node_tags_def command_tag_def comp_def)
  have 2: "\<exists>nodes mb ma. girder_node_loop g L ?d x_loc y_loc centroid rho Acol = Inr (nodes, mb, ma)
           \<and> length nodes = nat ?d + 1
           \<and> map command_tag nodes = girder_node_tags g ?d
           \<and> girder_gid_tags (domain_tags @ map command_tag nodes) g (?d + 1) = girder_node_tags g ?d"
    using assms(1) tags girder_gid_tags_own [of domain_tags g ?d, OF assms(2)]
    by (simp add: girder_node_loop_def Let_def length_py_range n)
  have 3: "\<exists>els. girder_element_loop (girder_node_tags g ?d) ?d (?d + 1) = Inr els
           \<and> length (concat (map fst els)) = nat ?d"
    using girder_element_loop_count [OF d0, of g] by blast
  have 4: "\<exists>nodes. deck_line_loop dn L ?d s x_off y z = Inr nodes \<and> length nodes = nat ?d + 1"
    using assms(1) by (simp add: deck_line_loop_def length_py_range n)
  show ?thesis
    using 1 2 3 4 deck_strip_loop_count [OF d0, of dn s s'] by blast
qed



lemma girder_line: "girder_node_tags g d = map (\<lambda>j. (1000 * g + 1) + j) (py_range 0 (d + 1))"
  by (simp add: girder_node_tags_def girder_node_tag_def add.commute add.left_commute)


























text \<open>The default span of 29600 mm: 148 elements and 149 nodes on girder 3 and on a deck line.\<close>

theorem mesh_division_counts_witness:
  "division_of 29600 = 148
   \<and> (\<exists>nodes mb ma. girder_node_loop 3 29600 (division_of 29600) 0 0 0 1 1 = Inr (nodes, mb, ma)
         \<and> length nodes = 149)
   \<and> (\<exists>els. girder_element_loop (girder_node_tags 3 (division_of 29600)) (division_of 29600)
               (division_of 29600 + 1) = Inr els
         \<and> length (concat (map fst els)) = 148)
   \<and> (\<exists>nodes. deck_line_loop 1 29600 (division_of 29600) 0 0 0 125 = Inr nodes
         \<and> length nodes = 149)"
proof -
  have d: "1 \<le> division_of 29600" by (simp add: division_29600)
  from mesh_division_counts [where L = 29600 and domain_tags = "[]" and g = 3 and x_loc = 0
      and y_loc = 0 and centroid = 0 and rho = 1 and Acol = 1 and dn = 1 and s = 0 and x_off = 0
      and y = 0 and z = 125 and s' = 1, OF d]
  show ?thesis by (simp add: division_29600) blast
qed

text \<open>
  C8 (as the specification has it) fails for a span of 1160 mm: \<^verbatim>\<open>int(1.16 * 5)\<close> is 5,
  \<^verbatim>\<open>round(1.16 * 5)\<close> is 6.
\<close>

theorem mesh_division_round_counterexample:
  "division_of 1160 = 5 \<and> spec_round (1160 / 1000 * 5) = 6"
  by (simp add: division_of_def trunc_def spec_round_def round_half_even_def)





end
